theory Spec2Isabelle
  imports Main
begin

section \<open>Values, diagnostics and resource data\<close>

text \<open>
  The handlers run inside the Terraform plugin SDK and talk to two Go client libraries.
  Neither is part of the repository, so each is represented by what the handlers see of it:
  attribute values are a small dynamic type, every client call is answered by an
  environment that threads an abstract backend state, and every call that leaves the
  repository's code is appended to a log so that order and absence of calls can be stated.
\<close>

datatype tfval =
    VNil
  | VString string
  | VBool bool
  | VList "tfval list"
  | VMap "(string \<times> tfval) list"

text \<open>The diagnostics built by \<open>internal/tf\<close>: the constructor keeps the attribute path,
  the summary template and its arguments.\<close>

datatype diag =
    ErrorDiagF string "string list"
  | ErrorDiagPathF string string "string list"
  | ImportAsDuplicateDiag string string string
  | ImportAsExistsDiag string string

text \<open>A handler either returns its diagnostics (\<open>None\<close> is Go's \<open>nil\<close>) or panics on a
  nil pointer dereference.\<close>

datatype exit = Return "diag option" | Panic

text \<open>A backend call answers with a value, or with \<open>err != nil\<close> and the HTTP status of
  the response.\<close>

datatype 'a reply = Ok 'a | Failed nat

text \<open>A helper of the repository that returns \<open>(T, error)\<close>, and may panic.\<close>

datatype 'a outcome = Ret 'a | Error | Panicked

definition StatusNotFound :: nat where
  "StatusNotFound = 404"

text \<open>Modelled from the spec: \<open>utils.ResponseWasNotFound\<close> (package \<open>internal/utils\<close>) and
  \<open>response.WasNotFound\<close> are not among the sources.  They recognise the answer of
  section 7 (a), "backend reports the object absent", which for an HTTP backend is the
  status the MS Graph handlers test directly with \<open>status == http.StatusNotFound\<close>.\<close>

definition ResponseWasNotFound :: "nat \<Rightarrow> bool" where
  "ResponseWasNotFound status = (status = StatusNotFound)"

record resource_data =
  rd_Id :: string
  rd_prior :: "string \<rightharpoonup> tfval"
  rd_planned :: "string \<rightharpoonup> tfval"

definition SetId :: "string \<Rightarrow> resource_data \<Rightarrow> resource_data" where
  "SetId v d = d\<lparr>rd_Id := v\<rparr>"

definition is_zero :: "tfval \<Rightarrow> bool" where
  "is_zero v = (v = VNil \<or> v = VString [] \<or> v = VBool False \<or> v = VList [] \<or> v = VMap [])"

text \<open>\<open>d.Get(k).(string)\<close> and \<open>d.Get(k).(bool)\<close>: the zero value when nothing is set.\<close>

definition Get_string :: "resource_data \<Rightarrow> string \<Rightarrow> string" where
  "Get_string d k = (case rd_planned d k of Some (VString s) \<Rightarrow> s | _ \<Rightarrow> [])"

definition Get_bool :: "resource_data \<Rightarrow> string \<Rightarrow> bool" where
  "Get_bool d k = (case rd_planned d k of Some (VBool b) \<Rightarrow> b | _ \<Rightarrow> False)"

definition Get_raw :: "resource_data \<Rightarrow> string \<Rightarrow> tfval" where
  "Get_raw d k = (case rd_planned d k of Some v \<Rightarrow> v | None \<Rightarrow> VNil)"

text \<open>\<open>d.GetOk(k)\<close>: the value, and whether it is set to something other than the zero
  value.  \<open>d.GetOkExists(k)\<close>: whether it is set at all.\<close>

definition GetOk :: "resource_data \<Rightarrow> string \<Rightarrow> tfval option" where
  "GetOk d k = (case rd_planned d k of Some v \<Rightarrow> if is_zero v then None else Some v | None \<Rightarrow> None)"

definition GetOkExists :: "resource_data \<Rightarrow> string \<Rightarrow> tfval option" where
  "GetOkExists d k = rd_planned d k"

text \<open>\<open>d.HasChange(k)\<close>: whether the prior and the planned value of \<open>k\<close> differ.  An
  attribute of type \<open>TypeSet\<close> (\<open>owners\<close>, \<open>members\<close>, \<open>tags\<close>, \<open>reply_urls\<close>) is held as the
  list that \<open>Set.List()\<close> returns, which orders the elements by their hash: two equal sets
  are then the same list, and comparing the lists compares the sets.  A resource data that
  holds one set in two orders is not an input of the SDK.\<close>

definition HasChange :: "resource_data \<Rightarrow> string \<Rightarrow> bool" where
  "HasChange d k = (rd_prior d k \<noteq> rd_planned d k)"

text \<open>The value a field of an update payload gets from
  \<open>if d.HasChange(k) { properties.F = v }\<close>: \<open>v\<close> when \<open>k\<close> has a change, else what it had.\<close>

definition if_changed :: "resource_data \<Rightarrow> string \<Rightarrow> 'a \<Rightarrow> 'a \<Rightarrow> 'a" where
  "if_changed d k v z = (if HasChange d k then v else z)"

text \<open>Modelled from the spec: \<open>tf.ExpandStringSlicePtr\<close> and \<open>tf.FlattenStringSlicePtr\<close>
  (package \<open>internal/tf\<close>) are not among the sources.  By section 3 the desired set is
  the list of identifiers from configuration: \<open>ExpandStringSlice\<close> gives the strings of a
  set or list attribute (of \<open>v.(*schema.Set).List()\<close> or \<open>v.([]interface{})\<close>), and
  \<open>FlattenStringSlicePtr\<close> is the way back, with a nil pointer giving the empty list.\<close>

definition as_string :: "tfval \<Rightarrow> string" where
  "as_string v = (case v of VString s \<Rightarrow> s | _ \<Rightarrow> [])"

definition as_bool :: "tfval \<Rightarrow> bool" where
  "as_bool v = (case v of VBool b \<Rightarrow> b | _ \<Rightarrow> False)"

definition ExpandStringSlice :: "tfval \<Rightarrow> string list" where
  "ExpandStringSlice v = (case v of VList xs \<Rightarrow> map as_string xs | _ \<Rightarrow> [])"

definition FlattenStringSlicePtr :: "string list option \<Rightarrow> tfval" where
  "FlattenStringSlicePtr p = VList (map VString (case p of None \<Rightarrow> [] | Some xs \<Rightarrow> xs))"

text \<open>\<open>v.(*schema.Set).List()\<close> and \<open>v.([]interface{})\<close>.\<close>

definition Set_List :: "tfval \<Rightarrow> tfval list" where
  "Set_List v = (case v of VList xs \<Rightarrow> xs | _ \<Rightarrow> [])"

text \<open>A pointer handed to \<open>tf.Set\<close>.\<close>

definition opt_string :: "string option \<Rightarrow> tfval" where
  "opt_string p = (case p of None \<Rightarrow> VNil | Some s \<Rightarrow> VString s)"

definition opt_bool :: "bool option \<Rightarrow> tfval" where
  "opt_bool p = (case p of None \<Rightarrow> VNil | Some b \<Rightarrow> VBool b)"

definition opt_strings :: "string list option \<Rightarrow> tfval" where
  "opt_strings p = (case p of None \<Rightarrow> VNil | Some xs \<Rightarrow> VList (map VString xs))"

section \<open>Set reconciliation\<close>

text \<open>
  Modelled from the spec: \<open>utils.Difference\<close> (package \<open>internal/utils\<close>) is called by
  every reconciling handler but its body is not among the sources.  Section 4.1 gives its
  contract: for \<open>existing\<close> and \<open>desired\<close> the handlers obtain
  \<open>toAdd = desired \ existing\<close> and \<open>toRemove = existing \ desired\<close>, so
  \<open>Difference a b\<close> keeps the elements of \<open>a\<close> that are not in \<open>b\<close>.

  The model has one empty list where Go has the \<open>nil\<close> slice and the empty slice that is
  not \<open>nil\<close>.  The callers over MS Graph guard their backend calls with
  \<open>ownersForRemoval != nil\<close> and \<open>ownersToAdd != nil\<close>; these guards are written \<open>\<noteq> []\<close>,
  which takes the empty difference to be the \<open>nil\<close> slice (a result that starts as \<open>nil\<close>
  and grows by \<open>append\<close>), the one reading under which the guards tell a difference with
  elements from one without.
\<close>

definition Difference :: "string list \<Rightarrow> string list \<Rightarrow> string list" where
  "Difference a b = filter (\<lambda>v. v \<notin> set b) a"

section \<open>String comparison\<close>

text \<open>
  \<open>strings.EqualFold\<close> of the Go standard library compares under Unicode case folding.
  The model is its restriction to ASCII: it identifies \<open>A\<close>..\<open>Z\<close> with \<open>a\<close>..\<open>z\<close> and compares
  every other byte as it is, so it agrees with the library on ASCII strings, the only ones
  compared below.
\<close>

definition fold_byte :: "char \<Rightarrow> nat" where
  "fold_byte c = (let n = of_char c in if 65 \<le> n \<and> n \<le> 90 then n + 32 else n)"

definition EqualFold :: "string \<Rightarrow> string \<Rightarrow> bool" where
  "EqualFold s t = (map fold_byte s = map fold_byte t)"

section \<open>Backend objects and the call log\<close>

text \<open>\<open>models.Group\<close> of the MS Graph client.  \<open>Members\<close> and \<open>Owners\<close> hold the
  OData references appended by \<open>AppendMember\<close> and \<open>AppendOwner\<close>.\<close>

record group =
  Group_ID :: "string option"
  Group_DisplayName :: "string option"
  Group_Description :: "string option"
  Group_MailNickname :: "string option"
  Group_SecurityEnabled :: "bool option"
  Group_MailEnabled :: "bool option"
  Group_Members :: "string list option"
  Group_Owners :: "string list option"

definition empty_group :: group where
  "empty_group = \<lparr>Group_ID = None, Group_DisplayName = None, Group_Description = None,
     Group_MailNickname = None, Group_SecurityEnabled = None, Group_MailEnabled = None,
     Group_Members = None, Group_Owners = None\<rparr>"

text \<open>\<open>graphrbac.ADGroup\<close> and \<open>graphrbac.GroupCreateParameters\<close> of the AAD Graph
  client.\<close>

record adgroup =
  ADGroup_ObjectID :: "string option"
  ADGroup_DisplayName :: "string option"
  ADGroup_AdditionalProperties :: "string \<rightharpoonup> tfval"

record group_create_parameters =
  GCP_DisplayName :: "string option"
  GCP_MailEnabled :: "bool option"
  GCP_MailNickname :: "string option"
  GCP_SecurityEnabled :: "bool option"
  GCP_AdditionalProperties :: "(string \<times> tfval) list"

text \<open>\<open>graphrbac.Application\<close>, and the fields that
  \<open>graphrbac.ApplicationCreateParameters\<close> and \<open>graphrbac.ApplicationUpdateParameters\<close>
  have in common.  Nested blocks (required resource access, optional claims, app roles,
  OAuth2 permissions) are carried as attribute values; \<open>GroupMembershipClaims\<close> is a string
  enumeration whose zero value is the empty string.\<close>

record aad_application =
  AadApp_ObjectID :: "string option"
  AadApp_AppID :: "string option"
  AadApp_DisplayName :: "string option"
  AadApp_Homepage :: "string option"
  AadApp_LogoutURL :: "string option"
  AadApp_AvailableToOtherTenants :: "bool option"
  AadApp_Oauth2AllowImplicitFlow :: "bool option"
  AadApp_PublicClient :: "bool option"
  AadApp_GroupMembershipClaims :: string
  AadApp_IdentifierUris :: "string list option"
  AadApp_ReplyUrls :: "string list option"
  AadApp_RequiredResourceAccess :: "tfval option"
  AadApp_OptionalClaims :: "tfval option"
  AadApp_AppRoles :: "tfval option"
  AadApp_Oauth2Permissions :: "tfval option"

record application_parameters =
  AP_DisplayName :: "string option"
  AP_Homepage :: "string option"
  AP_LogoutURL :: "string option"
  AP_IdentifierUris :: "string list option"
  AP_ReplyUrls :: "string list option"
  AP_AvailableToOtherTenants :: "bool option"
  AP_Oauth2AllowImplicitFlow :: "bool option"
  AP_PublicClient :: "bool option"
  AP_RequiredResourceAccess :: "tfval option"
  AP_OptionalClaims :: "tfval option"
  AP_GroupMembershipClaims :: string

definition empty_application_parameters :: application_parameters where
  "empty_application_parameters =
     \<lparr>AP_DisplayName = None, AP_Homepage = None, AP_LogoutURL = None, AP_IdentifierUris = None,
      AP_ReplyUrls = None, AP_AvailableToOtherTenants = None, AP_Oauth2AllowImplicitFlow = None,
      AP_PublicClient = None, AP_RequiredResourceAccess = None, AP_OptionalClaims = None,
      AP_GroupMembershipClaims = []\<rparr>"

text \<open>\<open>models.Application\<close> of the MS Graph client with the nested structs the handlers
  touch.  Of an app role and of a permission scope only \<open>IsEnabled\<close> is read or written by
  the handlers; the other fields travel together.\<close>

record app_role =
  AppRole_IsEnabled :: "bool option"
  AppRole_fields :: tfval

record permission_scope =
  Scope_IsEnabled :: "bool option"
  Scope_fields :: tfval

record application_api =
  Api_OAuth2PermissionScopes :: "permission_scope list option"

record implicit_grant_settings =
  EnableAccessTokenIssuance :: "bool option"

record application_web =
  Web_HomePageUrl :: "string option"
  Web_LogoutUrl :: "string option"
  Web_RedirectUris :: "string list option"
  Web_ImplicitGrantSettings :: "implicit_grant_settings option"

record application =
  App_ID :: "string option"
  App_AppId :: "string option"
  App_DisplayName :: "string option"
  App_Api :: "application_api option"
  App_AppRoles :: "app_role list option"
  App_GroupMembershipClaims :: "string option"
  App_IdentifierUris :: "string list option"
  App_IsFallbackPublicClient :: "bool option"
  App_OptionalClaims :: "tfval option"
  App_RequiredResourceAccess :: "tfval option"
  App_SignInAudience :: string
  App_Web :: "application_web option"
  App_Owners :: "string list option"

definition empty_application :: application where
  "empty_application =
     \<lparr>App_ID = None, App_AppId = None, App_DisplayName = None, App_Api = None,
      App_AppRoles = None, App_GroupMembershipClaims = None, App_IdentifierUris = None,
      App_IsFallbackPublicClient = None, App_OptionalClaims = None,
      App_RequiredResourceAccess = None, App_SignInAudience = [], App_Web = None,
      App_Owners = None\<rparr>"

definition SignInAudienceAzureADMyOrg :: string where
  "SignInAudienceAzureADMyOrg = ''AzureADMyOrg''"

definition SignInAudienceAzureADMultipleOrgs :: string where
  "SignInAudienceAzureADMultipleOrgs = ''AzureADMultipleOrgs''"

text \<open>\<open>graphrbac.ServicePrincipal\<close>, \<open>graphrbac.ServicePrincipalCreateParameters\<close> and
  \<open>graphrbac.ServicePrincipalUpdateParameters\<close>.\<close>

record service_principal =
  SP_ObjectID :: "string option"
  SP_AppID :: "string option"
  SP_DisplayName :: "string option"
  SP_AppRoleAssignmentRequired :: "bool option"
  SP_Tags :: "string list option"
  SP_AppRoles :: "tfval option"
  SP_Oauth2Permissions :: "tfval option"

record service_principal_create_parameters =
  SPC_AppID :: "string option"
  SPC_AccountEnabled :: "bool option"
  SPC_AppRoleAssignmentRequired :: "bool option"
  SPC_Tags :: "string list option"

record service_principal_update_parameters =
  SPU_AppRoleAssignmentRequired :: "bool option"
  SPU_Tags :: "string list option"

text \<open>Every call that leaves the handlers: the methods of the two clients, and the helpers
  of packages \<open>internal/helpers/aadgraph\<close> and \<open>internal/helpers/msgraph\<close> whose bodies
  are not among the sources.  A replication wait is logged with the call its polling
  callback makes.\<close>

datatype ms_groups_call =
    GroupsList string
  | GroupsCreate group
  | GroupsGet string
  | GroupsListOwners string
  | GroupsListMembers string
  | GroupsUpdate group
  | GroupsRemoveMembers string "string list"
  | GroupsAddMembers group
  | GroupsRemoveOwners string "string list"
  | GroupsAddOwners group
  | GroupsDelete string

datatype aad_groups_call =
    AadGroupsGet string
  | AadGroupsCreate group_create_parameters
  | AadGroupsDelete string
  | AadGroupsRemoveOwner string string
  | GroupFindByName string
  | GroupAddMembers string "string list"
  | GroupAllOwners string
  | GroupAddOwners string "string list"
  | GroupAllMembers string
  | GroupRemoveMember string string
  | GroupAddMember string string

datatype aad_apps_call =
    AadAppsCreate application_parameters
  | AadAppsGet string
  | AadAppsPatch string application_parameters
  | AadAppsDelete string
  | AadAppsRemoveOwner string string
  | AadApplicationFindByName string
  | AppRolesSet string "tfval option"
  | OAuth2PermissionsSet string "tfval option"
  | ApplicationAllOwners string
  | ApplicationAddOwners string "string list"

datatype ms_apps_call =
    AppsList string
  | AppsCreate application
  | AppsGet string
  | AppsUpdate application
  | AppsListOwners string
  | AppsRemoveOwners string "string list"
  | AppsAddOwners application

datatype sp_call =
    SPCreate service_principal_create_parameters
  | SPUpdate string service_principal_update_parameters
  | SPGet string
  | SPDelete string

datatype call =
    MsGroups ms_groups_call
  | AadGroups aad_groups_call
  | AadApps aad_apps_call
  | MsApps ms_apps_call
  | SPs sp_call
  | WaitForCreationReplication call
  | WaitForListRemove string call

record 's world =
  calls :: "call list"
  backend :: 's

definition issue :: "call \<Rightarrow> ('s \<Rightarrow> 'r \<times> 's) \<Rightarrow> 's world \<Rightarrow> 'r \<times> 's world" where
  "issue c f w = (case f (backend w) of (r, s') \<Rightarrow> (r, \<lparr>calls = calls w @ [c], backend = s'\<rparr>))"

text \<open>A call into the environment that is not logged (it is no backend call).\<close>

definition quiet :: "('s \<Rightarrow> 'r \<times> 's) \<Rightarrow> 's world \<Rightarrow> 'r \<times> 's world" where
  "quiet f w = (case f (backend w) of (r, s') \<Rightarrow> (r, \<lparr>calls = calls w, backend = s'\<rparr>))"

text \<open>What the handlers use of the plugin SDK and of package \<open>internal/tf\<close>: \<open>tf.Set\<close>
  stores an attribute and may answer with diagnostics; \<open>uuid.GenerateUUID\<close> may fail.\<close>

record 's framework =
  tfSet :: "string \<Rightarrow> tfval \<Rightarrow> resource_data \<Rightarrow> diag option \<times> resource_data"
  GenerateUUID :: "'s \<Rightarrow> string option \<times> 's"

text \<open>A run of \<open>if dg := tf.Set(d, k, v); dg != nil { return dg }\<close> statements.\<close>

fun tfSetAll :: "'s framework \<Rightarrow> (string \<times> tfval) list \<Rightarrow> resource_data \<Rightarrow> diag option \<times> resource_data" where
  "tfSetAll fw [] d = (None, d)"
| "tfSetAll fw ((k, v) # kvs) d =
     (case tfSet fw k v d of
        (Some dg, d') \<Rightarrow> (Some dg, d')
      | (None, d') \<Rightarrow> tfSetAll fw kvs d')"

abbreviation diags :: "diag \<Rightarrow> exit" where
  "diags dg \<equiv> Return (Some dg)"

section \<open>Groups\<close>

text \<open>\<open>clients.GroupsClient\<close> of the MS Graph library, as far as the handlers call it, with
  the endpoint and API version of its base client.  The last field stands for
  \<open>msgraph.WaitForCreationReplication\<close>, a helper of the repository whose body is not among
  the sources; it receives the call its polling callback makes.\<close>

record 's GroupsClient =
  gc_Endpoint :: string
  gc_ApiVersion :: string
  gc_List :: "string \<Rightarrow> 's \<Rightarrow> group list option reply \<times> 's"
  gc_Create :: "group \<Rightarrow> 's \<Rightarrow> group reply \<times> 's"
  gc_Get :: "string \<Rightarrow> 's \<Rightarrow> group reply \<times> 's"
  gc_ListOwners :: "string \<Rightarrow> 's \<Rightarrow> string list option reply \<times> 's"
  gc_ListMembers :: "string \<Rightarrow> 's \<Rightarrow> string list option reply \<times> 's"
  gc_Update :: "group \<Rightarrow> 's \<Rightarrow> unit reply \<times> 's"
  gc_RemoveMembers :: "string \<Rightarrow> string list \<Rightarrow> 's \<Rightarrow> unit reply \<times> 's"
  gc_AddMembers :: "group \<Rightarrow> 's \<Rightarrow> unit reply \<times> 's"
  gc_RemoveOwners :: "string \<Rightarrow> string list \<Rightarrow> 's \<Rightarrow> unit reply \<times> 's"
  gc_AddOwners :: "group \<Rightarrow> 's \<Rightarrow> unit reply \<times> 's"
  gc_Delete :: "string \<Rightarrow> 's \<Rightarrow> unit reply \<times> 's"
  gc_WaitForCreationReplication :: "call \<Rightarrow> 's \<Rightarrow> unit outcome \<times> 's"

definition odata_ref :: "string \<Rightarrow> string \<Rightarrow> string \<Rightarrow> string" where
  "odata_ref endpoint apiVersion oid = endpoint @ ''/'' @ apiVersion @ ''/directoryObjects/'' @ oid"

definition AppendMember :: "string \<Rightarrow> string \<Rightarrow> string \<Rightarrow> group \<Rightarrow> group" where
  "AppendMember endpoint apiVersion oid g =
     g\<lparr>Group_Members := Some ((case Group_Members g of None \<Rightarrow> [] | Some ms \<Rightarrow> ms)
                                @ [odata_ref endpoint apiVersion oid])\<rparr>"

definition AppendOwner :: "string \<Rightarrow> string \<Rightarrow> string \<Rightarrow> group \<Rightarrow> group" where
  "AppendOwner endpoint apiVersion oid g =
     g\<lparr>Group_Owners := Some ((case Group_Owners g of None \<Rightarrow> [] | Some os \<Rightarrow> os)
                               @ [odata_ref endpoint apiVersion oid])\<rparr>"

text \<open>\<open>fmt.Sprintf("displayName eq '%s'", displayName)\<close>, the filter of both name lookups.\<close>

definition displayName_filter :: "string \<Rightarrow> string" where
  "displayName_filter displayName = ''displayName eq '' @ [CHR 0x27] @ displayName @ [CHR 0x27]"

text \<open>The loop of \<open>GroupCheckNameAvailability\<close> over the listed groups: a group whose ID is
  \<open>existingID\<close> is skipped, the first other group whose display name equals
  \<open>displayName\<close> under case folding gives the result.  \<open>*r.ID\<close> and \<open>*r.DisplayName\<close>
  panic on a nil pointer.\<close>

fun GroupCheckNameAvailability_loop :: "string \<Rightarrow> string option \<Rightarrow> group list \<Rightarrow> string option outcome" where
  "GroupCheckNameAvailability_loop displayName existingID [] = Ret None"
| "GroupCheckNameAvailability_loop displayName existingID (r # rs) =
     (case (case existingID of
              None \<Rightarrow> Ret False
            | Some e \<Rightarrow> (case Group_ID r of None \<Rightarrow> Panicked | Some i \<Rightarrow> Ret (e = i))) of
        Panicked \<Rightarrow> Panicked
      | Error \<Rightarrow> Error
      | Ret True \<Rightarrow> GroupCheckNameAvailability_loop displayName existingID rs
      | Ret False \<Rightarrow>
          (case Group_DisplayName r of
             None \<Rightarrow> Panicked
           | Some n \<Rightarrow>
               if EqualFold displayName n then Ret (Group_ID r)
               else GroupCheckNameAvailability_loop displayName existingID rs))"

definition GroupCheckNameAvailability ::
  "'s GroupsClient \<Rightarrow> string \<Rightarrow> string option \<Rightarrow> 's world \<Rightarrow> string option outcome \<times> 's world" where
  "GroupCheckNameAvailability client displayName existingID w =
     (let filter = displayName_filter displayName in
      case issue (MsGroups (GroupsList filter)) (gc_List client filter) w of
        (Failed status, w1) \<Rightarrow> (Error, w1)
      | (Ok None, w1) \<Rightarrow> (Panicked, w1)
      | (Ok (Some result), w1) \<Rightarrow> (GroupCheckNameAvailability_loop displayName existingID result, w1))"

text \<open>\<open>graphrbac.GroupsClient\<close> of the AAD Graph library (the first four fields), and the
  helpers of package \<open>internal/helpers/aadgraph\<close> the group handlers call, none of which
  is among the sources.\<close>

record 's AadGroupsClient =
  agc_Get :: "string \<Rightarrow> 's \<Rightarrow> adgroup reply \<times> 's"
  agc_Create :: "group_create_parameters \<Rightarrow> 's \<Rightarrow> adgroup reply \<times> 's"
  agc_Delete :: "string \<Rightarrow> 's \<Rightarrow> unit reply \<times> 's"
  agc_RemoveOwner :: "string \<Rightarrow> string \<Rightarrow> 's \<Rightarrow> unit reply \<times> 's"
  agc_GroupFindByName :: "string \<Rightarrow> 's \<Rightarrow> adgroup option outcome \<times> 's"
  agc_GroupAddMembers :: "string \<Rightarrow> string list \<Rightarrow> 's \<Rightarrow> unit outcome \<times> 's"
  agc_GroupAllOwners :: "string \<Rightarrow> 's \<Rightarrow> string list outcome \<times> 's"
  agc_GroupAddOwners :: "string \<Rightarrow> string list \<Rightarrow> 's \<Rightarrow> unit outcome \<times> 's"
  agc_GroupAllMembers :: "string \<Rightarrow> 's \<Rightarrow> string list outcome \<times> 's"
  agc_GroupRemoveMember :: "string \<Rightarrow> string \<Rightarrow> 's \<Rightarrow> unit outcome \<times> 's"
  agc_GroupAddMember :: "string \<Rightarrow> string \<Rightarrow> 's \<Rightarrow> unit outcome \<times> 's"
  agc_WaitForListRemove :: "string \<Rightarrow> call \<Rightarrow> 's \<Rightarrow> unit outcome \<times> 's"
  agc_WaitForCreationReplication :: "call \<Rightarrow> 's \<Rightarrow> unit outcome \<times> 's"

text \<open>\<open>meta.(*clients.Client)\<close> as far as the group handlers read it.\<close>

record 's groups_meta =
  EnableMsGraphBeta :: bool
  Groups_MsClient :: "'s GroupsClient"
  Groups_AadClient :: "'s AadGroupsClient"

subsection \<open>Read\<close>

definition groupResourceReadMsGraph ::
  "'s framework \<Rightarrow> 's groups_meta \<Rightarrow> resource_data \<Rightarrow> 's world \<Rightarrow> exit \<times> resource_data \<times> 's world" where
  "groupResourceReadMsGraph fw meta d w =
     (let client = Groups_MsClient meta in
      case issue (MsGroups (GroupsGet (rd_Id d))) (gc_Get client (rd_Id d)) w of
        (Failed status, w1) \<Rightarrow>
          if status = StatusNotFound then (Return None, SetId [] d, w1)
          else (diags (ErrorDiagF ''Retrieving group with object ID: %q'' [rd_Id d]), d, w1)
      | (Ok grp, w1) \<Rightarrow>
          (case tfSetAll fw [(''object_id'', opt_string (Group_ID grp)),
                             (''name'', opt_string (Group_DisplayName grp)),
                             (''description'', opt_string (Group_Description grp))] d of
             (Some dg, d1) \<Rightarrow> (diags dg, d1, w1)
           | (None, d1) \<Rightarrow>
          (case Group_ID grp of
             None \<Rightarrow> (Panic, d1, w1)
           | Some gid \<Rightarrow>
          (case issue (MsGroups (GroupsListOwners gid)) (gc_ListOwners client gid) w1 of
             (Failed status, w2) \<Rightarrow>
               (diags (ErrorDiagPathF ''owners'' ''Could not retrieve owners for group with object ID %q'' [rd_Id d1]), d1, w2)
           | (Ok owners, w2) \<Rightarrow>
          (case tfSet fw ''owners'' (opt_strings owners) d1 of
             (Some dg, d2) \<Rightarrow> (diags dg, d2, w2)
           | (None, d2) \<Rightarrow>
          (case issue (MsGroups (GroupsListMembers gid)) (gc_ListMembers client gid) w2 of
             (Failed status, w3) \<Rightarrow>
               (diags (ErrorDiagPathF ''owners'' ''Could not retrieve members for group with object ID %q'' [rd_Id d2]), d2, w3)
           | (Ok members, w3) \<Rightarrow>
          (case tfSet fw ''members'' (opt_strings members) d2 of
             (Some dg, d3) \<Rightarrow> (diags dg, d3, w3)
           | (None, d3) \<Rightarrow>
          (case tfSet fw ''prevent_duplicate_names'' (VBool (Get_bool d3 ''prevent_duplicate_names'')) d3 of
             (Some dg, d4) \<Rightarrow> (diags dg, d4, w3)
           | (None, d4) \<Rightarrow> (Return None, d4, w3)))))))))"

text \<open>\<open>description = v.(string)\<close> panics when the additional property is not a string.\<close>

definition groupResourceReadAadGraph ::
  "'s framework \<Rightarrow> 's groups_meta \<Rightarrow> resource_data \<Rightarrow> 's world \<Rightarrow> exit \<times> resource_data \<times> 's world" where
  "groupResourceReadAadGraph fw meta d w =
     (let client = Groups_AadClient meta in
      case issue (AadGroups (AadGroupsGet (rd_Id d))) (agc_Get client (rd_Id d)) w of
        (Failed status, w1) \<Rightarrow>
          if ResponseWasNotFound status then (Return None, SetId [] d, w1)
          else (diags (ErrorDiagF ''Retrieving group with object ID: %q'' [rd_Id d]), d, w1)
      | (Ok resp, w1) \<Rightarrow>
          (case tfSetAll fw [(''object_id'', opt_string (ADGroup_ObjectID resp)),
                             (''name'', opt_string (ADGroup_DisplayName resp))] d of
             (Some dg, d1) \<Rightarrow> (diags dg, d1, w1)
           | (None, d1) \<Rightarrow>
          (case (case ADGroup_AdditionalProperties resp ''description'' of
                   None \<Rightarrow> Some []
                 | Some (VString s) \<Rightarrow> Some s
                 | Some _ \<Rightarrow> None) of
             None \<Rightarrow> (Panic, d1, w1)
           | Some description \<Rightarrow>
          (case tfSet fw ''description'' (VString description) d1 of
             (Some dg, d2) \<Rightarrow> (diags dg, d2, w1)
           | (None, d2) \<Rightarrow>
          (case issue (AadGroups (GroupAllMembers (rd_Id d2))) (agc_GroupAllMembers client (rd_Id d2)) w1 of
             (Panicked, w2) \<Rightarrow> (Panic, d2, w2)
           | (Error, w2) \<Rightarrow>
               (diags (ErrorDiagPathF ''owners'' ''Could not retrieve members for group with object ID %q'' [rd_Id d2]), d2, w2)
           | (Ret members, w2) \<Rightarrow>
          (case tfSet fw ''members'' (VList (map VString members)) d2 of
             (Some dg, d3) \<Rightarrow> (diags dg, d3, w2)
           | (None, d3) \<Rightarrow>
          (case issue (AadGroups (GroupAllOwners (rd_Id d3))) (agc_GroupAllOwners client (rd_Id d3)) w2 of
             (Panicked, w3) \<Rightarrow> (Panic, d3, w3)
           | (Error, w3) \<Rightarrow>
               (diags (ErrorDiagPathF ''owners'' ''Could not retrieve owners for group with object ID %q'' [rd_Id d3]), d3, w3)
           | (Ret owners, w3) \<Rightarrow>
          (case tfSet fw ''owners'' (VList (map VString owners)) d3 of
             (Some dg, d4) \<Rightarrow> (diags dg, d4, w3)
           | (None, d4) \<Rightarrow>
          (case tfSet fw ''prevent_duplicate_names'' (VBool (Get_bool d4 ''prevent_duplicate_names'')) d4 of
             (Some dg, d5) \<Rightarrow> (diags dg, d5, w3)
           | (None, d5) \<Rightarrow> (Return None, d5, w3))))))))))"

definition groupResourceRead ::
  "'s framework \<Rightarrow> 's groups_meta \<Rightarrow> resource_data \<Rightarrow> 's world \<Rightarrow> exit \<times> resource_data \<times> 's world" where
  "groupResourceRead fw meta d w =
     (if EnableMsGraphBeta meta then groupResourceReadMsGraph fw meta d w
      else groupResourceReadAadGraph fw meta d w)"

subsection \<open>Delete\<close>

definition groupResourceDeleteMsGraph ::
  "'s groups_meta \<Rightarrow> resource_data \<Rightarrow> 's world \<Rightarrow> exit \<times> resource_data \<times> 's world" where
  "groupResourceDeleteMsGraph meta d w =
     (let client = Groups_MsClient meta in
      case issue (MsGroups (GroupsDelete (rd_Id d))) (gc_Delete client (rd_Id d)) w of
        (Failed status, w1) \<Rightarrow> (diags (ErrorDiagF ''Deleting group with object ID: %q'' [rd_Id d]), d, w1)
      | (Ok u, w1) \<Rightarrow> (Return None, d, w1))"

definition groupResourceDeleteAadGraph ::
  "'s groups_meta \<Rightarrow> resource_data \<Rightarrow> 's world \<Rightarrow> exit \<times> resource_data \<times> 's world" where
  "groupResourceDeleteAadGraph meta d w =
     (let client = Groups_AadClient meta in
      case issue (AadGroups (AadGroupsDelete (rd_Id d))) (agc_Delete client (rd_Id d)) w of
        (Failed status, w1) \<Rightarrow>
          if \<not> ResponseWasNotFound status
          then (diags (ErrorDiagF ''Deleting group with object ID: %q'' [rd_Id d]), d, w1)
          else (Return None, d, w1)
      | (Ok u, w1) \<Rightarrow> (Return None, d, w1))"

definition groupResourceDelete ::
  "'s groups_meta \<Rightarrow> resource_data \<Rightarrow> 's world \<Rightarrow> exit \<times> resource_data \<times> 's world" where
  "groupResourceDelete meta d w =
     (if EnableMsGraphBeta meta then groupResourceDeleteMsGraph meta d w
      else groupResourceDeleteAadGraph meta d w)"

subsection \<open>Create\<close>

definition groupResourceCreateMsGraph_properties ::
  "'s GroupsClient \<Rightarrow> resource_data \<Rightarrow> string \<Rightarrow> string \<Rightarrow> group" where
  "groupResourceCreateMsGraph_properties client d displayName mailNickname =
     (let p0 = empty_group\<lparr>Group_DisplayName := Some displayName,
                            Group_MailNickname := Some mailNickname,
                            Group_SecurityEnabled := Some True,
                            Group_MailEnabled := Some False\<rparr>;
          p1 = (case GetOk d ''description'' of
                  Some v \<Rightarrow> p0\<lparr>Group_Description := Some (as_string v)\<rparr>
                | None \<Rightarrow> p0);
          p2 = (case GetOk d ''members'' of
                  Some v \<Rightarrow> fold (AppendMember (gc_Endpoint client) (gc_ApiVersion client)) (ExpandStringSlice v) p1
                | None \<Rightarrow> p1)
      in case GetOk d ''owners'' of
           Some v \<Rightarrow> fold (AppendOwner (gc_Endpoint client) (gc_ApiVersion client)) (ExpandStringSlice v) p2
         | None \<Rightarrow> p2)"

definition groupResourceCreateMsGraph ::
  "'s framework \<Rightarrow> 's groups_meta \<Rightarrow> resource_data \<Rightarrow> 's world \<Rightarrow> exit \<times> resource_data \<times> 's world" where
  "groupResourceCreateMsGraph fw meta d w =
     (let client = Groups_MsClient meta;
          displayName = Get_string d ''name''
      in
      case (if Get_bool d ''prevent_duplicate_names''
            then (case GroupCheckNameAvailability client displayName None w of
                    (Panicked, w1) \<Rightarrow> (Some Panic, w1)
                  | (Error, w1) \<Rightarrow>
                      (Some (diags (ErrorDiagPathF ''name'' ''Could not check for existing group(s)'' [])), w1)
                  | (Ret (Some existingId), w1) \<Rightarrow>
                      (Some (diags (ImportAsDuplicateDiag ''azuread_group'' existingId displayName)), w1)
                  | (Ret None, w1) \<Rightarrow> (None, w1))
            else (None, w)) of
        (Some e, w1) \<Rightarrow> (e, d, w1)
      | (None, w1) \<Rightarrow>
      (case GenerateUUID fw (backend w1) of
         (None, s2) \<Rightarrow> (diags (ErrorDiagF ''Failed to generate mailNickname'' []), d, w1\<lparr>backend := s2\<rparr>)
       | (Some mailNickname, s2) \<Rightarrow>
      (let properties = groupResourceCreateMsGraph_properties client d displayName mailNickname in
       case issue (MsGroups (GroupsCreate properties)) (gc_Create client properties) (w1\<lparr>backend := s2\<rparr>) of
         (Failed status, w3) \<Rightarrow> (diags (ErrorDiagF ''Creating group %q'' [displayName]), d, w3)
       | (Ok grp, w3) \<Rightarrow>
      (case Group_ID grp of
         None \<Rightarrow> (diags (ErrorDiagF ''Bad API Response'' []), d, w3)
       | Some gid \<Rightarrow>
      (let d1 = SetId gid d in
       case issue (WaitForCreationReplication (MsGroups (GroupsGet gid)))
                  (gc_WaitForCreationReplication client (MsGroups (GroupsGet gid))) w3 of
         (Panicked, w4) \<Rightarrow> (Panic, d1, w4)
       | (Error, w4) \<Rightarrow> (diags (ErrorDiagF ''Waiting for Group with object ID: %q'' [gid]), d1, w4)
       | (Ret u, w4) \<Rightarrow> groupResourceReadMsGraph fw meta d1 w4)))))"

definition groupResourceCreateAadGraph_properties ::
  "resource_data \<Rightarrow> string \<Rightarrow> string \<Rightarrow> group_create_parameters" where
  "groupResourceCreateAadGraph_properties d name mailNickname =
     \<lparr>GCP_DisplayName = Some name,
      GCP_MailEnabled = Some False,
      GCP_MailNickname = Some mailNickname,
      GCP_SecurityEnabled = Some True,
      GCP_AdditionalProperties =
        (case GetOk d ''description'' of
           Some v \<Rightarrow> [(''description'', VString (as_string v))]
         | None \<Rightarrow> [])\<rparr>"

text \<open>The tail of \<open>groupResourceCreateAadGraph\<close> after the replication wait: members, then
  owners, then Read.\<close>

definition groupResourceCreateAadGraph_relations ::
  "'s framework \<Rightarrow> 's groups_meta \<Rightarrow> string \<Rightarrow> resource_data \<Rightarrow> 's world \<Rightarrow> exit \<times> resource_data \<times> 's world" where
  "groupResourceCreateAadGraph_relations fw meta gid d w =
     (let client = Groups_AadClient meta in
      case (case GetOk d ''members'' of
              None \<Rightarrow> (None, w)
            | Some v \<Rightarrow>
                (case issue (AadGroups (GroupAddMembers gid (ExpandStringSlice v)))
                            (agc_GroupAddMembers client gid (ExpandStringSlice v)) w of
                   (Panicked, w1) \<Rightarrow> (Some Panic, w1)
                 | (Error, w1) \<Rightarrow> (Some (diags (ErrorDiagF ''Adding group members'' [])), w1)
                 | (Ret u, w1) \<Rightarrow> (None, w1))) of
        (Some e, w1) \<Rightarrow> (e, d, w1)
      | (None, w1) \<Rightarrow>
      (case (case GetOk d ''owners'' of
               None \<Rightarrow> (None, w1)
             | Some v \<Rightarrow>
                 (case issue (AadGroups (GroupAllOwners gid)) (agc_GroupAllOwners client gid) w1 of
                    (Panicked, w2) \<Rightarrow> (Some Panic, w2)
                  | (Error, w2) \<Rightarrow> (Some (diags (ErrorDiagF ''Could not retrieve group owners'' [])), w2)
                  | (Ret existingOwners, w2) \<Rightarrow>
                      (let ownersToAdd = Difference (ExpandStringSlice v) existingOwners in
                       case issue (AadGroups (GroupAddOwners gid ownersToAdd))
                                  (agc_GroupAddOwners client gid ownersToAdd) w2 of
                         (Panicked, w3) \<Rightarrow> (Some Panic, w3)
                       | (Error, w3) \<Rightarrow> (Some (diags (ErrorDiagF ''Adding group owners'' [])), w3)
                       | (Ret u, w3) \<Rightarrow> (None, w3)))) of
         (Some e, w3) \<Rightarrow> (e, d, w3)
       | (None, w3) \<Rightarrow> groupResourceReadAadGraph fw meta d w3))"

definition groupResourceCreateAadGraph ::
  "'s framework \<Rightarrow> 's groups_meta \<Rightarrow> resource_data \<Rightarrow> 's world \<Rightarrow> exit \<times> resource_data \<times> 's world" where
  "groupResourceCreateAadGraph fw meta d w =
     (let client = Groups_AadClient meta;
          name = Get_string d ''name''
      in
      case (if Get_bool d ''prevent_duplicate_names''
            then (case issue (AadGroups (GroupFindByName name)) (agc_GroupFindByName client name) w of
                    (Panicked, w1) \<Rightarrow> (Some Panic, w1)
                  | (Error, w1) \<Rightarrow>
                      (Some (diags (ErrorDiagPathF ''name'' ''Could not check for existing group(s)'' [])), w1)
                  | (Ret (Some existingGroup), w1) \<Rightarrow>
                      (case ADGroup_ObjectID existingGroup of
                         None \<Rightarrow> (Some (diags (ImportAsDuplicateDiag ''azuread_group'' ''unknown'' name)), w1)
                       | Some oid \<Rightarrow> (Some (diags (ImportAsDuplicateDiag ''azuread_group'' oid name)), w1))
                  | (Ret None, w1) \<Rightarrow> (None, w1))
            else (None, w)) of
        (Some e, w1) \<Rightarrow> (e, d, w1)
      | (None, w1) \<Rightarrow>
      (case GenerateUUID fw (backend w1) of
         (None, s2) \<Rightarrow> (diags (ErrorDiagF ''Failed to generate mailNickname'' []), d, w1\<lparr>backend := s2\<rparr>)
       | (Some mailNickname, s2) \<Rightarrow>
      (let properties = groupResourceCreateAadGraph_properties d name mailNickname in
       case issue (AadGroups (AadGroupsCreate properties)) (agc_Create client properties) (w1\<lparr>backend := s2\<rparr>) of
         (Failed status, w3) \<Rightarrow> (diags (ErrorDiagF ''Creating group %q'' [name]), d, w3)
       | (Ok grp, w3) \<Rightarrow>
      (case ADGroup_ObjectID grp of
         None \<Rightarrow> (diags (ErrorDiagF ''Bad API Response'' []), d, w3)
       | Some gid \<Rightarrow>
      if gid = [] then (diags (ErrorDiagF ''Bad API Response'' []), d, w3) else
      (let d1 = SetId gid d in
       case issue (WaitForCreationReplication (AadGroups (AadGroupsGet gid)))
                  (agc_WaitForCreationReplication client (AadGroups (AadGroupsGet gid))) w3 of
         (Panicked, w4) \<Rightarrow> (Panic, d1, w4)
       | (Error, w4) \<Rightarrow> (diags (ErrorDiagF ''Waiting for Group with object ID: %q'' [gid]), d1, w4)
       | (Ret u, w4) \<Rightarrow> groupResourceCreateAadGraph_relations fw meta gid d1 w4)))))"

definition groupResourceCreate ::
  "'s framework \<Rightarrow> 's groups_meta \<Rightarrow> resource_data \<Rightarrow> 's world \<Rightarrow> exit \<times> resource_data \<times> 's world" where
  "groupResourceCreate fw meta d w =
     (if EnableMsGraphBeta meta then groupResourceCreateMsGraph fw meta d w
      else groupResourceCreateAadGraph fw meta d w)"

subsection \<open>Update\<close>

text \<open>The three blocks of \<open>groupResourceUpdateMsGraph\<close> share the local variable
  \<open>group\<close>: the same object is sent by \<open>Update\<close>, \<open>AddMembers\<close> and \<open>AddOwners\<close>, so
  each block returns it.  \<open>None\<close> as first component means that the handler goes on.
  \<open>groupResourceUpdateMsGraph_group\<close> is \<open>group\<close> as the \<open>Update\<close> call sends it: the ID, the
  display name when \<open>display_name\<close> has a change, the description when it has one.\<close>

definition groupResourceUpdateMsGraph_group :: "resource_data \<Rightarrow> group" where
  "groupResourceUpdateMsGraph_group d =
     (let group0 = empty_group\<lparr>Group_ID := Some (rd_Id d)\<rparr>;
          group1 = (if HasChange d ''display_name''
                    then group0\<lparr>Group_DisplayName := Some (Get_string d ''name'')\<rparr>
                    else group0)
      in if HasChange d ''description''
         then group1\<lparr>Group_Description := Some (Get_string d ''description'')\<rparr>
         else group1)"

definition groupResourceUpdateMsGraph_fields ::
  "'s groups_meta \<Rightarrow> resource_data \<Rightarrow> 's world \<Rightarrow> exit option \<times> group \<times> 's world" where
  "groupResourceUpdateMsGraph_fields meta d w =
     (let client = Groups_MsClient meta;
          group0 = empty_group\<lparr>Group_ID := Some (rd_Id d)\<rparr>;
          displayName = Get_string d ''name''
      in
      case (if HasChange d ''display_name'' \<and> Get_bool d ''prevent_duplicate_names''
            then (case GroupCheckNameAvailability client displayName (Group_ID group0) w of
                    (Panicked, w1) \<Rightarrow> (Some Panic, w1)
                  | (Error, w1) \<Rightarrow>
                      (Some (diags (ErrorDiagPathF ''name'' ''Could not check for existing group(s)'' [])), w1)
                  | (Ret (Some existingId), w1) \<Rightarrow>
                      (Some (diags (ImportAsDuplicateDiag ''azuread_group'' existingId displayName)), w1)
                  | (Ret None, w1) \<Rightarrow> (None, w1))
            else (None, w)) of
        (Some e, w1) \<Rightarrow> (Some e, group0, w1)
      | (None, w1) \<Rightarrow>
      (let group2 = groupResourceUpdateMsGraph_group d in
       case issue (MsGroups (GroupsUpdate group2)) (gc_Update client group2) w1 of
         (Failed status, w2) \<Rightarrow> (Some (diags (ErrorDiagF ''Updating group with ID: %q'' [rd_Id d])), group2, w2)
       | (Ok u, w2) \<Rightarrow> (None, group2, w2)))"

definition groupResourceUpdateMsGraph_members ::
  "'s groups_meta \<Rightarrow> resource_data \<Rightarrow> group \<Rightarrow> 's world \<Rightarrow> exit option \<times> group \<times> 's world" where
  "groupResourceUpdateMsGraph_members meta d grp w =
     (let client = Groups_MsClient meta in
      case GetOkExists d ''members'' of
        None \<Rightarrow> (None, grp, w)
      | Some v \<Rightarrow>
      if \<not> HasChange d ''members'' then (None, grp, w) else
      (case Group_ID grp of
         None \<Rightarrow> (Some Panic, grp, w)
       | Some gid \<Rightarrow>
      (case issue (MsGroups (GroupsListMembers gid)) (gc_ListMembers client gid) w of
         (Failed status, w1) \<Rightarrow>
           (Some (diags (ErrorDiagF ''Could not retrieve members for group with ID: %q'' [rd_Id d])), grp, w1)
       | (Ok None, w1) \<Rightarrow> (Some Panic, grp, w1)
       | (Ok (Some existingMembers), w1) \<Rightarrow>
      (let desiredMembers = ExpandStringSlice v;
           membersForRemoval = Difference existingMembers desiredMembers;
           membersToAdd = Difference desiredMembers existingMembers
       in
       case (if membersForRemoval \<noteq> []
             then (case issue (MsGroups (GroupsRemoveMembers (rd_Id d) membersForRemoval))
                              (gc_RemoveMembers client (rd_Id d) membersForRemoval) w1 of
                     (Failed status, w2) \<Rightarrow>
                       (Some (diags (ErrorDiagF ''Could not remove members from group with ID: %q'' [rd_Id d])), w2)
                   | (Ok u, w2) \<Rightarrow> (None, w2))
             else (None, w1)) of
         (Some e, w2) \<Rightarrow> (Some e, grp, w2)
       | (None, w2) \<Rightarrow>
           if membersToAdd \<noteq> []
           then (let grp' = fold (AppendMember (gc_Endpoint client) (gc_ApiVersion client)) membersToAdd grp in
                 case issue (MsGroups (GroupsAddMembers grp')) (gc_AddMembers client grp') w2 of
                   (Failed status, w3) \<Rightarrow>
                     (Some (diags (ErrorDiagF ''Could not add members to group with ID: %q'' [rd_Id d])), grp', w3)
                 | (Ok u, w3) \<Rightarrow> (None, grp', w3))
           else (None, grp, w2)))))"

definition groupResourceUpdateMsGraph_owners ::
  "'s groups_meta \<Rightarrow> resource_data \<Rightarrow> group \<Rightarrow> 's world \<Rightarrow> exit option \<times> group \<times> 's world" where
  "groupResourceUpdateMsGraph_owners meta d grp w =
     (let client = Groups_MsClient meta in
      case GetOkExists d ''owners'' of
        None \<Rightarrow> (None, grp, w)
      | Some v \<Rightarrow>
      if \<not> HasChange d ''owners'' then (None, grp, w) else
      (case Group_ID grp of
         None \<Rightarrow> (Some Panic, grp, w)
       | Some gid \<Rightarrow>
      (case issue (MsGroups (GroupsListOwners gid)) (gc_ListOwners client gid) w of
         (Failed status, w1) \<Rightarrow>
           (Some (diags (ErrorDiagF ''Could not retrieve eowners for group with ID: %q'' [rd_Id d])), grp, w1)
       | (Ok None, w1) \<Rightarrow> (Some Panic, grp, w1)
       | (Ok (Some existingOwners), w1) \<Rightarrow>
      (let desiredOwners = ExpandStringSlice v;
           ownersForRemoval = Difference existingOwners desiredOwners;
           ownersToAdd = Difference desiredOwners existingOwners
       in
       case (if ownersForRemoval \<noteq> []
             then (case issue (MsGroups (GroupsRemoveOwners (rd_Id d) ownersForRemoval))
                              (gc_RemoveOwners client (rd_Id d) ownersForRemoval) w1 of
                     (Failed status, w2) \<Rightarrow>
                       (Some (diags (ErrorDiagF ''Could not remove owners from group with ID: %q'' [rd_Id d])), w2)
                   | (Ok u, w2) \<Rightarrow> (None, w2))
             else (None, w1)) of
         (Some e, w2) \<Rightarrow> (Some e, grp, w2)
       | (None, w2) \<Rightarrow>
           if ownersToAdd \<noteq> []
           then (let grp' = fold (AppendOwner (gc_Endpoint client) (gc_ApiVersion client)) ownersToAdd grp in
                 case issue (MsGroups (GroupsAddOwners grp')) (gc_AddOwners client grp') w2 of
                   (Failed status, w3) \<Rightarrow>
                     (Some (diags (ErrorDiagF ''Could not add owners to group with ID: %q'' [rd_Id d])), grp', w3)
                 | (Ok u, w3) \<Rightarrow> (None, grp', w3))
           else (None, grp, w2)))))"

definition groupResourceUpdateMsGraph ::
  "'s framework \<Rightarrow> 's groups_meta \<Rightarrow> resource_data \<Rightarrow> 's world \<Rightarrow> exit \<times> resource_data \<times> 's world" where
  "groupResourceUpdateMsGraph fw meta d w =
     (case groupResourceUpdateMsGraph_fields meta d w of
        (Some e, group1, w1) \<Rightarrow> (e, d, w1)
      | (None, group1, w1) \<Rightarrow>
      (case groupResourceUpdateMsGraph_members meta d group1 w1 of
         (Some e, group2, w2) \<Rightarrow> (e, d, w2)
       | (None, group2, w2) \<Rightarrow>
      (case groupResourceUpdateMsGraph_owners meta d group2 w2 of
         (Some e, group3, w3) \<Rightarrow> (e, d, w3)
       | (None, group3, w3) \<Rightarrow> groupResourceReadMsGraph fw meta d w3)))"

text \<open>The removal loops of \<open>groupResourceUpdateAadGraph\<close>: members are removed one by one,
  each followed by a wait for the removal to replicate; owners are removed one by one and a
  not-found answer is tolerated.\<close>

fun groupResourceUpdateAadGraph_removeMembers ::
  "'s AadGroupsClient \<Rightarrow> string \<Rightarrow> string list \<Rightarrow> 's world \<Rightarrow> exit option \<times> 's world" where
  "groupResourceUpdateAadGraph_removeMembers client gid [] w = (None, w)"
| "groupResourceUpdateAadGraph_removeMembers client gid (existingMember # rest) w =
     (case issue (AadGroups (GroupRemoveMember gid existingMember)) (agc_GroupRemoveMember client gid existingMember) w of
        (Panicked, w1) \<Rightarrow> (Some Panic, w1)
      | (Error, w1) \<Rightarrow> (Some (diags (ErrorDiagF ''Removing group members'' [])), w1)
      | (Ret u, w1) \<Rightarrow>
      (case issue (WaitForListRemove existingMember (AadGroups (GroupAllMembers gid)))
                  (agc_WaitForListRemove client existingMember (AadGroups (GroupAllMembers gid))) w1 of
         (Panicked, w2) \<Rightarrow> (Some Panic, w2)
       | (Error, w2) \<Rightarrow> (Some (diags (ErrorDiagF ''Waiting for group membership removal'' [])), w2)
       | (Ret u', w2) \<Rightarrow> groupResourceUpdateAadGraph_removeMembers client gid rest w2))"

fun groupResourceUpdateAadGraph_removeOwners ::
  "'s AadGroupsClient \<Rightarrow> string \<Rightarrow> string list \<Rightarrow> 's world \<Rightarrow> exit option \<times> 's world" where
  "groupResourceUpdateAadGraph_removeOwners client gid [] w = (None, w)"
| "groupResourceUpdateAadGraph_removeOwners client gid (ownerToDelete # rest) w =
     (case issue (AadGroups (AadGroupsRemoveOwner gid ownerToDelete)) (agc_RemoveOwner client gid ownerToDelete) w of
        (Failed status, w1) \<Rightarrow>
          if \<not> ResponseWasNotFound status
          then (Some (diags (ErrorDiagF ''Removing group owner %q from group with object ID: %q'' [ownerToDelete, gid])), w1)
          else groupResourceUpdateAadGraph_removeOwners client gid rest w1
      | (Ok u, w1) \<Rightarrow> groupResourceUpdateAadGraph_removeOwners client gid rest w1)"

definition groupResourceUpdateAadGraph_members ::
  "'s groups_meta \<Rightarrow> resource_data \<Rightarrow> 's world \<Rightarrow> exit option \<times> 's world" where
  "groupResourceUpdateAadGraph_members meta d w =
     (let client = Groups_AadClient meta in
      case GetOkExists d ''members'' of
        None \<Rightarrow> (None, w)
      | Some v \<Rightarrow>
      if \<not> HasChange d ''members'' then (None, w) else
      (case issue (AadGroups (GroupAllMembers (rd_Id d))) (agc_GroupAllMembers client (rd_Id d)) w of
         (Panicked, w1) \<Rightarrow> (Some Panic, w1)
       | (Error, w1) \<Rightarrow>
           (Some (diags (ErrorDiagPathF ''owners'' ''Could not retrieve members for group with object ID %q'' [rd_Id d])), w1)
       | (Ret existingMembers, w1) \<Rightarrow>
      (let desiredMembers = ExpandStringSlice v;
           membersForRemoval = Difference existingMembers desiredMembers;
           membersToAdd = Difference desiredMembers existingMembers
       in
       case groupResourceUpdateAadGraph_removeMembers client (rd_Id d) membersForRemoval w1 of
         (Some e, w2) \<Rightarrow> (Some e, w2)
       | (None, w2) \<Rightarrow>
       (case issue (AadGroups (GroupAddMembers (rd_Id d) membersToAdd)) (agc_GroupAddMembers client (rd_Id d) membersToAdd) w2 of
          (Panicked, w3) \<Rightarrow> (Some Panic, w3)
        | (Error, w3) \<Rightarrow> (Some (diags (ErrorDiagF ''Adding group members'' [])), w3)
        | (Ret u, w3) \<Rightarrow> (None, w3)))))"

definition groupResourceUpdateAadGraph_owners ::
  "'s groups_meta \<Rightarrow> resource_data \<Rightarrow> 's world \<Rightarrow> exit option \<times> 's world" where
  "groupResourceUpdateAadGraph_owners meta d w =
     (let client = Groups_AadClient meta in
      case GetOkExists d ''owners'' of
        None \<Rightarrow> (None, w)
      | Some v \<Rightarrow>
      if \<not> HasChange d ''owners'' then (None, w) else
      (case issue (AadGroups (GroupAllOwners (rd_Id d))) (agc_GroupAllOwners client (rd_Id d)) w of
         (Panicked, w1) \<Rightarrow> (Some Panic, w1)
       | (Error, w1) \<Rightarrow>
           (Some (diags (ErrorDiagPathF ''owners'' ''Could not retrieve owners for group with object ID %q'' [rd_Id d])), w1)
       | (Ret existingOwners, w1) \<Rightarrow>
      (let desiredOwners = ExpandStringSlice v;
           ownersForRemoval = Difference existingOwners desiredOwners;
           ownersToAdd = Difference desiredOwners existingOwners
       in
       case groupResourceUpdateAadGraph_removeOwners client (rd_Id d) ownersForRemoval w1 of
         (Some e, w2) \<Rightarrow> (Some e, w2)
       | (None, w2) \<Rightarrow>
       (case issue (AadGroups (GroupAddOwners (rd_Id d) ownersToAdd)) (agc_GroupAddOwners client (rd_Id d) ownersToAdd) w2 of
          (Panicked, w3) \<Rightarrow> (Some Panic, w3)
        | (Error, w3) \<Rightarrow> (Some (diags (ErrorDiagF ''Adding group owners'' [])), w3)
        | (Ret u, w3) \<Rightarrow> (None, w3)))))"

definition groupResourceUpdateAadGraph ::
  "'s framework \<Rightarrow> 's groups_meta \<Rightarrow> resource_data \<Rightarrow> 's world \<Rightarrow> exit \<times> resource_data \<times> 's world" where
  "groupResourceUpdateAadGraph fw meta d w =
     (case groupResourceUpdateAadGraph_members meta d w of
        (Some e, w1) \<Rightarrow> (e, d, w1)
      | (None, w1) \<Rightarrow>
      (case groupResourceUpdateAadGraph_owners meta d w1 of
         (Some e, w2) \<Rightarrow> (e, d, w2)
       | (None, w2) \<Rightarrow> groupResourceRead fw meta d w2))"

definition groupResourceUpdate ::
  "'s framework \<Rightarrow> 's groups_meta \<Rightarrow> resource_data \<Rightarrow> 's world \<Rightarrow> exit \<times> resource_data \<times> 's world" where
  "groupResourceUpdate fw meta d w =
     (if EnableMsGraphBeta meta then groupResourceUpdateMsGraph fw meta d w
      else groupResourceUpdateAadGraph fw meta d w)"

subsection \<open>Group members over AAD Graph\<close>

text \<open>Modelled from the spec: \<open>aadgraph.GroupMemberIdFrom\<close> and the \<open>String\<close> method of its
  result are not among the sources.  Section 6 gives the format of the identifier of a
  membership sub-resource: the composite \<open>parentId/kind/keyId\<close>, the kind being \<open>member\<close>
  as in \<open>msgraph.GroupMemberIdFrom\<close>.\<close>

definition GroupMemberId_String :: "string \<Rightarrow> string \<Rightarrow> string" where
  "GroupMemberId_String groupID memberID = groupID @ ''/member/'' @ memberID"

text \<open>The loop of \<open>groupMemberResourceCreateAadGraph\<close> over the existing members.\<close>

fun existingMembers_contain :: "string list \<Rightarrow> string \<Rightarrow> bool" where
  "existingMembers_contain [] memberID = False"
| "existingMembers_contain (v # rest) memberID =
     (if EqualFold v memberID then True else existingMembers_contain rest memberID)"

text \<open>The handler ends in the router \<open>groupMemberResourceRead\<close>, which is not among the
  sources and is a parameter here.  The named lock it takes around its body serialises
  concurrent handlers and has no effect on a single run.\<close>

definition groupMemberResourceCreateAadGraph ::
  "(resource_data \<Rightarrow> 's world \<Rightarrow> exit \<times> resource_data \<times> 's world) \<Rightarrow> 's groups_meta \<Rightarrow> resource_data \<Rightarrow> 's world
     \<Rightarrow> exit \<times> resource_data \<times> 's world" where
  "groupMemberResourceCreateAadGraph groupMemberResourceRead meta d w =
     (let client = Groups_AadClient meta;
          groupID = Get_string d ''group_object_id'';
          memberID = Get_string d ''member_object_id''
      in
      case issue (AadGroups (GroupAllMembers groupID)) (agc_GroupAllMembers client groupID) w of
        (Panicked, w1) \<Rightarrow> (Panic, d, w1)
      | (Error, w1) \<Rightarrow>
          (diags (ErrorDiagF ''Listing existing members for group with object ID: %q'' [groupID]), d, w1)
      | (Ret existingMembers, w1) \<Rightarrow>
          if length existingMembers > 0 \<and> existingMembers_contain existingMembers memberID
          then (diags (ImportAsExistsDiag ''azuread_group_member'' (GroupMemberId_String groupID memberID)), d, w1)
          else
          (case issue (AadGroups (GroupAddMember groupID memberID)) (agc_GroupAddMember client groupID memberID) w1 of
             (Panicked, w2) \<Rightarrow> (Panic, d, w2)
           | (Error, w2) \<Rightarrow> (diags (ErrorDiagF ''Adding group member'' []), d, w2)
           | (Ret u, w2) \<Rightarrow> groupMemberResourceRead (SetId (GroupMemberId_String groupID memberID) d) w2))"

section \<open>Applications over AAD Graph\<close>

text \<open>\<open>graphrbac.ApplicationsClient\<close> (the first five fields) and the helpers of package
  \<open>internal/helpers/aadgraph\<close> the application handlers call, none of which is among the
  sources.\<close>

record 's AadApplicationsClient =
  aac_Create :: "application_parameters \<Rightarrow> 's \<Rightarrow> aad_application reply \<times> 's"
  aac_Get :: "string \<Rightarrow> 's \<Rightarrow> aad_application reply \<times> 's"
  aac_Patch :: "string \<Rightarrow> application_parameters \<Rightarrow> 's \<Rightarrow> unit reply \<times> 's"
  aac_Delete :: "string \<Rightarrow> 's \<Rightarrow> unit reply \<times> 's"
  aac_RemoveOwner :: "string \<Rightarrow> string \<Rightarrow> 's \<Rightarrow> unit reply \<times> 's"
  aac_ApplicationFindByName :: "string \<Rightarrow> 's \<Rightarrow> aad_application option outcome \<times> 's"
  aac_WaitForCreationReplication :: "call \<Rightarrow> 's \<Rightarrow> unit outcome \<times> 's"
  aac_AppRolesSet :: "string \<Rightarrow> tfval option \<Rightarrow> 's \<Rightarrow> unit outcome \<times> 's"
  aac_OAuth2PermissionsSet :: "string \<Rightarrow> tfval option \<Rightarrow> 's \<Rightarrow> unit outcome \<times> 's"
  aac_ApplicationAllOwners :: "string \<Rightarrow> 's \<Rightarrow> string list outcome \<times> 's"
  aac_ApplicationAddOwners :: "string \<Rightarrow> string list \<Rightarrow> 's \<Rightarrow> unit outcome \<times> 's"

text \<open>The expand and flatten functions of the application resource translate nested blocks
  between attribute values and client structs, two of them drawing fresh UUIDs.  Nothing
  below depends on what they compute, so the handlers take them as parameters;
  \<open>aadgraph.FlattenAppRoles\<close> and \<open>aadgraph.FlattenOauth2Permissions\<close> are such parameters
  too.\<close>

record 's aad_codec =
  aad_expandApplicationRequiredResourceAccess :: "resource_data \<Rightarrow> tfval option"
  aad_expandApplicationOptionalClaims :: "resource_data \<Rightarrow> tfval option"
  aad_expandApplicationAppRoles :: "tfval \<Rightarrow> 's \<Rightarrow> tfval option \<times> 's"
  aad_expandApplicationOAuth2Permissions :: "tfval \<Rightarrow> 's \<Rightarrow> tfval option \<times> 's"
  aad_flattenApplicationRequiredResourceAccess :: "tfval option \<Rightarrow> tfval"
  aad_flattenApplicationOptionalClaims :: "tfval option \<Rightarrow> tfval"
  aad_FlattenAppRoles :: "tfval option \<Rightarrow> tfval"
  aad_FlattenOauth2Permissions :: "tfval option \<Rightarrow> tfval"

subsection \<open>Duplicate values of roles and scopes\<close>

text \<open>\<open>role["value"].(string)\<close> panics when the block has no string under \<open>value\<close>.\<close>

definition block_value :: "tfval \<Rightarrow> string option" where
  "block_value raw =
     (case raw of
        VMap kvs \<Rightarrow> (case map_of kvs ''value'' of Some (VString s) \<Rightarrow> Some s | _ \<Rightarrow> None)
      | _ \<Rightarrow> None)"

fun collect_values :: "tfval list \<Rightarrow> string list \<Rightarrow> string list option" where
  "collect_values [] acc = Some acc"
| "collect_values (raw # rest) acc =
     (case block_value raw of
        None \<Rightarrow> None
      | Some val \<Rightarrow> collect_values rest (if val \<noteq> [] then acc @ [val] else acc))"

fun find_duplicate :: "string list \<Rightarrow> string list \<Rightarrow> string option" where
  "find_duplicate encountered [] = None"
| "find_duplicate encountered (val # rest) =
     (if val \<in> set encountered then Some val
      else find_duplicate (encountered @ [val]) rest)"

definition applicationValidateRolesScopes :: "tfval list \<Rightarrow> tfval list \<Rightarrow> unit outcome" where
  "applicationValidateRolesScopes appRoles oauth2Permissions =
     (case collect_values appRoles [] of
        None \<Rightarrow> Panicked
      | Some values1 \<Rightarrow>
     (case collect_values oauth2Permissions values1 of
        None \<Rightarrow> Panicked
      | Some values \<Rightarrow>
     (case find_duplicate (replicate (length values) []) values of
        Some val \<Rightarrow> Error
      | None \<Rightarrow> Ret ())))"

subsection \<open>Owners\<close>

fun applicationSetOwnersTo_remove ::
  "'s AadApplicationsClient \<Rightarrow> string \<Rightarrow> string list \<Rightarrow> 's world \<Rightarrow> unit outcome \<times> 's world" where
  "applicationSetOwnersTo_remove client aid [] w = (Ret (), w)"
| "applicationSetOwnersTo_remove client aid (ownerToDelete # rest) w =
     (case issue (AadApps (AadAppsRemoveOwner aid ownerToDelete)) (aac_RemoveOwner client aid ownerToDelete) w of
        (Failed status, w1) \<Rightarrow>
          if \<not> ResponseWasNotFound status then (Error, w1)
          else applicationSetOwnersTo_remove client aid rest w1
      | (Ok u, w1) \<Rightarrow> applicationSetOwnersTo_remove client aid rest w1)"

definition applicationSetOwnersTo ::
  "'s AadApplicationsClient \<Rightarrow> string \<Rightarrow> string list \<Rightarrow> 's world \<Rightarrow> unit outcome \<times> 's world" where
  "applicationSetOwnersTo client aid desiredOwners w =
     (case issue (AadApps (ApplicationAllOwners aid)) (aac_ApplicationAllOwners client aid) w of
        (Panicked, w1) \<Rightarrow> (Panicked, w1)
      | (Error, w1) \<Rightarrow> (Error, w1)
      | (Ret existingOwners, w1) \<Rightarrow>
     (let ownersForRemoval = Difference existingOwners desiredOwners;
          ownersToAdd = Difference desiredOwners existingOwners
      in
      case issue (AadApps (ApplicationAddOwners aid ownersToAdd)) (aac_ApplicationAddOwners client aid ownersToAdd) w1 of
        (Panicked, w2) \<Rightarrow> (Panicked, w2)
      | (Error, w2) \<Rightarrow> (Error, w2)
      | (Ret u, w2) \<Rightarrow> applicationSetOwnersTo_remove client aid ownersForRemoval w2))"

subsection \<open>Read and Delete\<close>

record 's applications_meta =
  Applications_ApplicationsClient :: "'s AadApplicationsClient"

definition applicationResourceRead ::
  "'s framework \<Rightarrow> 's aad_codec \<Rightarrow> 's applications_meta \<Rightarrow> resource_data \<Rightarrow> 's world
     \<Rightarrow> exit \<times> resource_data \<times> 's world" where
  "applicationResourceRead fw cd meta d w =
     (let client = Applications_ApplicationsClient meta in
      case issue (AadApps (AadAppsGet (rd_Id d))) (aac_Get client (rd_Id d)) w of
        (Failed status, w1) \<Rightarrow>
          if ResponseWasNotFound status then (Return None, SetId [] d, w1)
          else (diags (ErrorDiagPathF ''application_object_id'' ''Retrieving Application with object ID %q'' [rd_Id d]), d, w1)
      | (Ok app, w1) \<Rightarrow>
          (case tfSetAll fw
                  [(''object_id'', opt_string (AadApp_ObjectID app)),
                   (''application_id'', opt_string (AadApp_AppID app)),
                   (''name'', opt_string (AadApp_DisplayName app)),
                   (''homepage'', opt_string (AadApp_Homepage app)),
                   (''logout_url'', opt_string (AadApp_LogoutURL app)),
                   (''available_to_other_tenants'', opt_bool (AadApp_AvailableToOtherTenants app)),
                   (''oauth2_allow_implicit_flow'', opt_bool (AadApp_Oauth2AllowImplicitFlow app)),
                   (''public_client'', opt_bool (AadApp_PublicClient app)),
                   (''type'', VString (if AadApp_PublicClient app = Some True then ''native'' else ''webapp/api'')),
                   (''group_membership_claims'', VString (AadApp_GroupMembershipClaims app)),
                   (''identifier_uris'', FlattenStringSlicePtr (AadApp_IdentifierUris app)),
                   (''reply_urls'', FlattenStringSlicePtr (AadApp_ReplyUrls app)),
                   (''required_resource_access'',
                      aad_flattenApplicationRequiredResourceAccess cd (AadApp_RequiredResourceAccess app)),
                   (''optional_claims'', aad_flattenApplicationOptionalClaims cd (AadApp_OptionalClaims app)),
                   (''app_role'', aad_FlattenAppRoles cd (AadApp_AppRoles app)),
                   (''oauth2_permissions'', aad_FlattenOauth2Permissions cd (AadApp_Oauth2Permissions app))] d of
             (Some dg, d1) \<Rightarrow> (diags dg, d1, w1)
           | (None, d1) \<Rightarrow>
          (case issue (AadApps (ApplicationAllOwners (rd_Id d1))) (aac_ApplicationAllOwners client (rd_Id d1)) w1 of
             (Panicked, w2) \<Rightarrow> (Panic, d1, w2)
           | (Error, w2) \<Rightarrow>
               (case AadApp_ObjectID app of
                  None \<Rightarrow> (Panic, d1, w2)
                | Some oid \<Rightarrow>
                    (diags (ErrorDiagPathF ''owners'' ''Could not retrieve owners for application with object ID %q'' [oid]), d1, w2))
           | (Ret owners, w2) \<Rightarrow>
          (case tfSet fw ''owners'' (VList (map VString owners)) d1 of
             (Some dg, d2) \<Rightarrow> (diags dg, d2, w2)
           | (None, d2) \<Rightarrow>
          (case tfSet fw ''prevent_duplicate_names'' (VBool (Get_bool d2 ''prevent_duplicate_names'')) d2 of
             (Some dg, d3) \<Rightarrow> (diags dg, d3, w2)
           | (None, d3) \<Rightarrow> (Return None, d3, w2))))))"

definition applicationResourceDelete ::
  "'s applications_meta \<Rightarrow> resource_data \<Rightarrow> 's world \<Rightarrow> exit \<times> resource_data \<times> 's world" where
  "applicationResourceDelete meta d w =
     (let client = Applications_ApplicationsClient meta;
          availableToOtherTenants = Get_bool d ''available_to_other_tenants''
      in
      case (if availableToOtherTenants
            then (let properties = empty_application_parameters\<lparr>AP_AvailableToOtherTenants := Some False\<rparr> in
                  case issue (AadApps (AadAppsPatch (rd_Id d) properties)) (aac_Patch client (rd_Id d) properties) w of
                    (Failed status, w1) \<Rightarrow>
                      (Some (diags (ErrorDiagF ''Updating Application with object ID %q'' [rd_Id d])), w1)
                  | (Ok u, w1) \<Rightarrow> (None, w1))
            else (None, w)) of
        (Some e, w1) \<Rightarrow> (e, d, w1)
      | (None, w1) \<Rightarrow>
      (case issue (AadApps (AadAppsDelete (rd_Id d))) (aac_Delete client (rd_Id d)) w1 of
         (Failed status, w2) \<Rightarrow>
           if \<not> ResponseWasNotFound status
           then (diags (ErrorDiagF ''Deleting Application with object ID %q'' [rd_Id d]), d, w2)
           else (Return None, d, w2)
       | (Ok u, w2) \<Rightarrow> (Return None, d, w2)))"

subsection \<open>Create\<close>

definition applicationResourceCreate_properties ::
  "'s aad_codec \<Rightarrow> resource_data \<Rightarrow> string \<Rightarrow> application_parameters" where
  "applicationResourceCreate_properties cd d name =
     (let p0 = empty_application_parameters
                 \<lparr>AP_DisplayName := Some name,
                  AP_IdentifierUris := Some (ExpandStringSlice (Get_raw d ''identifier_uris'')),
                  AP_ReplyUrls := Some (ExpandStringSlice (Get_raw d ''reply_urls'')),
                  AP_AvailableToOtherTenants := Some (Get_bool d ''available_to_other_tenants''),
                  AP_RequiredResourceAccess := aad_expandApplicationRequiredResourceAccess cd d,
                  AP_OptionalClaims := aad_expandApplicationOptionalClaims cd d\<rparr>;
          p1 = (case GetOk d ''homepage'' of Some v \<Rightarrow> p0\<lparr>AP_Homepage := Some (as_string v)\<rparr> | None \<Rightarrow> p0);
          p2 = (case GetOk d ''logout_url'' of Some v \<Rightarrow> p1\<lparr>AP_LogoutURL := Some (as_string v)\<rparr> | None \<Rightarrow> p1);
          p3 = (case GetOk d ''oauth2_allow_implicit_flow'' of
                  Some v \<Rightarrow> p2\<lparr>AP_Oauth2AllowImplicitFlow := Some (as_bool v)\<rparr> | None \<Rightarrow> p2);
          p4 = (case GetOk d ''public_client'' of Some v \<Rightarrow> p3\<lparr>AP_PublicClient := Some (as_bool v)\<rparr> | None \<Rightarrow> p3)
      in case GetOk d ''group_membership_claims'' of
           Some v \<Rightarrow> p4\<lparr>AP_GroupMembershipClaims := as_string v\<rparr>
         | None \<Rightarrow> p4)"

text \<open>The steps of \<open>applicationResourceCreate\<close> after the replication wait: the patch of a
  native application, app roles, OAuth2 permissions, owners.\<close>

definition applicationResourceCreate_native ::
  "'s AadApplicationsClient \<Rightarrow> resource_data \<Rightarrow> string \<Rightarrow> 's world \<Rightarrow> exit option \<times> 's world" where
  "applicationResourceCreate_native client d oid w =
     (if Get_raw d ''type'' = VString ''native''
      then (let properties = empty_application_parameters
                               \<lparr>AP_IdentifierUris := Some [], AP_PublicClient := Some True\<rparr> in
            case issue (AadApps (AadAppsPatch oid properties)) (aac_Patch client oid properties) w of
              (Failed status, w1) \<Rightarrow> (Some (diags (ErrorDiagF ''Updating Application with object ID: %q'' [oid])), w1)
            | (Ok u, w1) \<Rightarrow> (None, w1))
      else (None, w))"

definition applicationResource_setAppRoles ::
  "'s AadApplicationsClient \<Rightarrow> 's aad_codec \<Rightarrow> string \<Rightarrow> tfval \<Rightarrow> 's world \<Rightarrow> exit option \<times> 's world" where
  "applicationResource_setAppRoles client cd oid v w =
     (case quiet (aad_expandApplicationAppRoles cd v) w of
        (None, w1) \<Rightarrow> (None, w1)
      | (Some appRoles, w1) \<Rightarrow>
          (case issue (AadApps (AppRolesSet oid (Some appRoles))) (aac_AppRolesSet client oid (Some appRoles)) w1 of
             (Panicked, w2) \<Rightarrow> (Some Panic, w2)
           | (Error, w2) \<Rightarrow> (Some (diags (ErrorDiagPathF ''app_role'' ''Could not set App Roles'' [])), w2)
           | (Ret u, w2) \<Rightarrow> (None, w2)))"

definition applicationResource_setOAuth2Permissions ::
  "'s AadApplicationsClient \<Rightarrow> 's aad_codec \<Rightarrow> string \<Rightarrow> tfval \<Rightarrow> 's world \<Rightarrow> exit option \<times> 's world" where
  "applicationResource_setOAuth2Permissions client cd oid v w =
     (case quiet (aad_expandApplicationOAuth2Permissions cd v) w of
        (None, w1) \<Rightarrow> (None, w1)
      | (Some oauth2Permissions, w1) \<Rightarrow>
          (case issue (AadApps (OAuth2PermissionsSet oid (Some oauth2Permissions)))
                      (aac_OAuth2PermissionsSet client oid (Some oauth2Permissions)) w1 of
             (Panicked, w2) \<Rightarrow> (Some Panic, w2)
           | (Error, w2) \<Rightarrow>
               (Some (diags (ErrorDiagPathF ''oauth2_permissions'' ''Could not set OAuth2 Permissions'' [])), w2)
           | (Ret u, w2) \<Rightarrow> (None, w2)))"

definition applicationResource_setOwners ::
  "'s AadApplicationsClient \<Rightarrow> string \<Rightarrow> tfval \<Rightarrow> 's world \<Rightarrow> exit option \<times> 's world" where
  "applicationResource_setOwners client oid v w =
     (case applicationSetOwnersTo client oid (ExpandStringSlice v) w of
        (Panicked, w1) \<Rightarrow> (Some Panic, w1)
      | (Error, w1) \<Rightarrow> (Some (diags (ErrorDiagPathF ''owners'' ''Could not set Owners'' [])), w1)
      | (Ret u, w1) \<Rightarrow> (None, w1))"

definition applicationResourceCreate_relations ::
  "'s framework \<Rightarrow> 's aad_codec \<Rightarrow> 's applications_meta \<Rightarrow> string \<Rightarrow> resource_data \<Rightarrow> 's world
     \<Rightarrow> exit \<times> resource_data \<times> 's world" where
  "applicationResourceCreate_relations fw cd meta oid d w =
     (let client = Applications_ApplicationsClient meta in
      case applicationResourceCreate_native client d oid w of
        (Some e, w1) \<Rightarrow> (e, d, w1)
      | (None, w1) \<Rightarrow>
      (case (case GetOk d ''app_role'' of
               Some v \<Rightarrow> applicationResource_setAppRoles client cd oid v w1
             | None \<Rightarrow> (None, w1)) of
         (Some e, w2) \<Rightarrow> (e, d, w2)
       | (None, w2) \<Rightarrow>
      (case (case GetOk d ''oauth2_permissions'' of
               Some v \<Rightarrow> applicationResource_setOAuth2Permissions client cd oid v w2
             | None \<Rightarrow> (None, w2)) of
         (Some e, w3) \<Rightarrow> (e, d, w3)
       | (None, w3) \<Rightarrow>
      (case (case GetOk d ''owners'' of
               Some v \<Rightarrow> applicationResource_setOwners client oid v w3
             | None \<Rightarrow> (None, w3)) of
         (Some e, w4) \<Rightarrow> (e, d, w4)
       | (None, w4) \<Rightarrow> applicationResourceRead fw cd meta d w4))))"

text \<open>The client-side checks that open \<open>applicationResourceCreate\<close>: the duplicate-name
  guard, the duplicate values of roles and scopes, and identifier URIs of a native
  application.\<close>

definition applicationResourceCreate_checks ::
  "'s applications_meta \<Rightarrow> resource_data \<Rightarrow> 's world \<Rightarrow> exit option \<times> 's world" where
  "applicationResourceCreate_checks meta d w =
     (let client = Applications_ApplicationsClient meta;
          name = Get_string d ''name''
      in
      case (if Get_bool d ''prevent_duplicate_names''
            then (case issue (AadApps (AadApplicationFindByName name)) (aac_ApplicationFindByName client name) w of
                    (Panicked, w1) \<Rightarrow> (Some Panic, w1)
                  | (Error, w1) \<Rightarrow>
                      (Some (diags (ErrorDiagPathF ''name'' ''Could not check for existing application(s)'' [])), w1)
                  | (Ret (Some existingApp), w1) \<Rightarrow>
                      (case AadApp_ObjectID existingApp of
                         None \<Rightarrow> (Some (diags (ImportAsDuplicateDiag ''azuread_application'' ''unknown'' name)), w1)
                       | Some oid \<Rightarrow> (Some (diags (ImportAsDuplicateDiag ''azuread_application'' oid name)), w1))
                  | (Ret None, w1) \<Rightarrow> (None, w1))
            else (None, w)) of
        (Some e, w1) \<Rightarrow> (Some e, w1)
      | (None, w1) \<Rightarrow>
      (case applicationValidateRolesScopes (Set_List (Get_raw d ''app_role'')) (Set_List (Get_raw d ''oauth2_permissions'')) of
         Panicked \<Rightarrow> (Some Panic, w1)
       | Error \<Rightarrow>
           (Some (diags (ErrorDiagPathF ''app_role'' ''Checking for duplicate app role / oauth2_permissions values'' [])), w1)
       | Ret u \<Rightarrow>
           if Get_raw d ''type'' = VString ''native'' \<and> GetOk d ''identifier_uris'' \<noteq> None
           then (Some (diags (ErrorDiagPathF ''identifier_uris'' ''Property is not required for a native application'' [])), w1)
           else (None, w1)))"

definition applicationResourceCreate ::
  "'s framework \<Rightarrow> 's aad_codec \<Rightarrow> 's applications_meta \<Rightarrow> resource_data \<Rightarrow> 's world
     \<Rightarrow> exit \<times> resource_data \<times> 's world" where
  "applicationResourceCreate fw cd meta d w =
     (let client = Applications_ApplicationsClient meta;
          name = Get_string d ''name''
      in
      case applicationResourceCreate_checks meta d w of
        (Some e, w1) \<Rightarrow> (e, d, w1)
      | (None, w1) \<Rightarrow>
      (let properties = applicationResourceCreate_properties cd d name in
       case issue (AadApps (AadAppsCreate properties)) (aac_Create client properties) w1 of
         (Failed status, w2) \<Rightarrow> (diags (ErrorDiagF ''Could not create application'' []), d, w2)
       | (Ok app, w2) \<Rightarrow>
      (case AadApp_ObjectID app of
         None \<Rightarrow> (diags (ErrorDiagF ''Object ID returned for application is nil/empty'' []), d, w2)
       | Some oid \<Rightarrow>
      if oid = [] then (diags (ErrorDiagF ''Object ID returned for application is nil/empty'' []), d, w2) else
      (let d1 = SetId oid d in
       case issue (WaitForCreationReplication (AadApps (AadAppsGet oid)))
                  (aac_WaitForCreationReplication client (AadApps (AadAppsGet oid))) w2 of
         (Panicked, w3) \<Rightarrow> (Panic, d1, w3)
       | (Error, w3) \<Rightarrow> (diags (ErrorDiagF ''Waiting for Application with object ID: %q'' [oid]), d1, w3)
       | (Ret u, w3) \<Rightarrow> applicationResourceCreate_relations fw cd meta oid d1 w3))))"

subsection \<open>Update\<close>

text \<open>The payload of \<open>applicationResourceUpdate\<close>.  The handler starts from the zero value
  of the struct and runs one \<open>if d.HasChange(k) { properties.F = ... }\<close> per field, each
  statement writing a field of its own, so every field is its value when \<open>k\<close> has a change
  and the zero value otherwise.  The switch on a changed \<open>type\<close> comes last and overwrites
  \<open>PublicClient\<close> and \<open>IdentifierUris\<close>; a type other than \<open>webapp/api\<close> and \<open>native\<close> is an
  error (\<open>None\<close>).\<close>

definition applicationResourceUpdate_properties ::
  "'s aad_codec \<Rightarrow> resource_data \<Rightarrow> string \<Rightarrow> application_parameters option" where
  "applicationResourceUpdate_properties cd d name =
     (let properties =
            \<lparr>AP_DisplayName = (if_changed d ''name'' (Some name) None),
             AP_Homepage = (if_changed d ''homepage'' (Some (Get_string d ''homepage'')) None),
             AP_LogoutURL = (if_changed d ''logout_url'' (Some (Get_string d ''logout_url'')) None),
             AP_IdentifierUris =
               (if_changed d ''identifier_uris'' (Some (ExpandStringSlice (Get_raw d ''identifier_uris''))) None),
             AP_ReplyUrls =
               (if_changed d ''reply_urls'' (Some (ExpandStringSlice (Get_raw d ''reply_urls''))) None),
             AP_AvailableToOtherTenants =
               (if_changed d ''available_to_other_tenants'' (Some (Get_bool d ''available_to_other_tenants'')) None),
             AP_Oauth2AllowImplicitFlow =
               (if_changed d ''oauth2_allow_implicit_flow'' (Some (Get_bool d ''oauth2_allow_implicit_flow'')) None),
             AP_PublicClient =
               (if_changed d ''public_client'' (Some (Get_bool d ''public_client'')) None),
             AP_RequiredResourceAccess =
               (if_changed d ''required_resource_access'' (aad_expandApplicationRequiredResourceAccess cd d) None),
             AP_OptionalClaims =
               (if_changed d ''optional_claims'' (aad_expandApplicationOptionalClaims cd d) None),
             AP_GroupMembershipClaims =
               (if_changed d ''group_membership_claims'' (Get_string d ''group_membership_claims'') [])\<rparr>
      in
      if HasChange d ''type''
      then (if Get_raw d ''type'' = VString ''webapp/api''
            then Some (properties\<lparr>AP_PublicClient := Some False,
                                    AP_IdentifierUris := Some (ExpandStringSlice (Get_raw d ''identifier_uris''))\<rparr>)
            else if Get_raw d ''type'' = VString ''native''
            then Some (properties\<lparr>AP_PublicClient := Some True, AP_IdentifierUris := Some []\<rparr>)
            else None)
      else Some properties)"

definition applicationResourceUpdate_checks ::
  "'s applications_meta \<Rightarrow> resource_data \<Rightarrow> 's world \<Rightarrow> exit option \<times> 's world" where
  "applicationResourceUpdate_checks meta d w =
     (let client = Applications_ApplicationsClient meta;
          name = Get_string d ''name''
      in
      case (if HasChange d ''name'' \<and> Get_bool d ''prevent_duplicate_names''
            then (case issue (AadApps (AadApplicationFindByName name)) (aac_ApplicationFindByName client name) w of
                    (Panicked, w1) \<Rightarrow> (Some Panic, w1)
                  | (Error, w1) \<Rightarrow>
                      (Some (diags (ErrorDiagPathF ''name'' ''Could not check for existing application(s)'' [])), w1)
                  | (Ret (Some existingApp), w1) \<Rightarrow>
                      (case AadApp_ObjectID existingApp of
                         None \<Rightarrow> (Some (diags (ImportAsDuplicateDiag ''azuread_application'' ''unknown'' name)), w1)
                       | Some oid \<Rightarrow> (Some (diags (ImportAsDuplicateDiag ''azuread_application'' oid name)), w1))
                  | (Ret None, w1) \<Rightarrow> (None, w1))
            else (None, w)) of
        (Some e, w1) \<Rightarrow> (Some e, w1)
      | (None, w1) \<Rightarrow>
      (case applicationValidateRolesScopes (Set_List (Get_raw d ''app_role'')) (Set_List (Get_raw d ''oauth2_permissions'')) of
         Panicked \<Rightarrow> (Some Panic, w1)
       | Error \<Rightarrow>
           (Some (diags (ErrorDiagPathF ''app_role'' ''Checking for duplicate app role / oauth2_permissions values'' [])), w1)
       | Ret u \<Rightarrow> (None, w1)))"

definition applicationResourceUpdate_relations ::
  "'s framework \<Rightarrow> 's aad_codec \<Rightarrow> 's applications_meta \<Rightarrow> resource_data \<Rightarrow> 's world
     \<Rightarrow> exit \<times> resource_data \<times> 's world" where
  "applicationResourceUpdate_relations fw cd meta d w =
     (let client = Applications_ApplicationsClient meta in
      case (if HasChange d ''app_role''
            then applicationResource_setAppRoles client cd (rd_Id d) (Get_raw d ''app_role'') w
            else (None, w)) of
        (Some e, w1) \<Rightarrow> (e, d, w1)
      | (None, w1) \<Rightarrow>
      (case (if HasChange d ''oauth2_permissions''
             then applicationResource_setOAuth2Permissions client cd (rd_Id d) (Get_raw d ''oauth2_permissions'') w1
             else (None, w1)) of
         (Some e, w2) \<Rightarrow> (e, d, w2)
       | (None, w2) \<Rightarrow>
      (case (if HasChange d ''owners''
             then applicationResource_setOwners client (rd_Id d) (Get_raw d ''owners'') w2
             else (None, w2)) of
         (Some e, w3) \<Rightarrow> (e, d, w3)
       | (None, w3) \<Rightarrow> applicationResourceRead fw cd meta d w3)))"

definition applicationResourceUpdate ::
  "'s framework \<Rightarrow> 's aad_codec \<Rightarrow> 's applications_meta \<Rightarrow> resource_data \<Rightarrow> 's world
     \<Rightarrow> exit \<times> resource_data \<times> 's world" where
  "applicationResourceUpdate fw cd meta d w =
     (let client = Applications_ApplicationsClient meta;
          name = Get_string d ''name''
      in
      case applicationResourceUpdate_checks meta d w of
        (Some e, w1) \<Rightarrow> (e, d, w1)
      | (None, w1) \<Rightarrow>
      (case applicationResourceUpdate_properties cd d name of
         None \<Rightarrow>
           (diags (ErrorDiagPathF ''type'' ''Updating Application with object ID: %q'' [rd_Id d]), d, w1)
       | Some properties \<Rightarrow>
      (case issue (AadApps (AadAppsPatch (rd_Id d) properties)) (aac_Patch client (rd_Id d) properties) w1 of
         (Failed status, w2) \<Rightarrow> (diags (ErrorDiagF ''Updating Application with object ID %q'' [rd_Id d]), d, w2)
       | (Ok u, w2) \<Rightarrow> applicationResourceUpdate_relations fw cd meta d w2)))"

section \<open>Applications over MS Graph\<close>

text \<open>\<open>clients.ApplicationsClient\<close> of the MS Graph library, as far as the handlers call
  it.  The resource registers the AAD Graph handlers of the previous section; the handlers of
  this section are written against the same attributes.\<close>

record 's ApplicationsClient =
  ac_Endpoint :: string
  ac_ApiVersion :: string
  ac_List :: "string \<Rightarrow> 's \<Rightarrow> application list option reply \<times> 's"
  ac_Create :: "application \<Rightarrow> 's \<Rightarrow> application reply \<times> 's"
  ac_Get :: "string \<Rightarrow> 's \<Rightarrow> application reply \<times> 's"
  ac_Update :: "application \<Rightarrow> 's \<Rightarrow> unit reply \<times> 's"
  ac_ListOwners :: "string \<Rightarrow> 's \<Rightarrow> string list option reply \<times> 's"
  ac_RemoveOwners :: "string \<Rightarrow> string list \<Rightarrow> 's \<Rightarrow> unit reply \<times> 's"
  ac_AddOwners :: "application \<Rightarrow> 's \<Rightarrow> unit reply \<times> 's"

record 's ms_codec =
  ms_expandApplicationAppRoles :: "tfval list \<Rightarrow> 's \<Rightarrow> app_role list option \<times> 's"
  ms_expandApplicationOAuth2Permissions :: "tfval list \<Rightarrow> 's \<Rightarrow> permission_scope list option \<times> 's"
  ms_expandApplicationOptionalClaims :: "tfval list \<Rightarrow> tfval option"
  ms_expandApplicationRequiredResourceAccess :: "tfval list \<Rightarrow> tfval option"
  ms_flattenApplicationAppRoles :: "app_role list option \<Rightarrow> tfval"
  ms_flattenApplicationOAuth2Permissions :: "permission_scope list option \<Rightarrow> tfval"
  ms_flattenApplicationOptionalClaims :: "tfval option \<Rightarrow> tfval"
  ms_flattenApplicationRequiredResourceAccess :: "tfval option \<Rightarrow> tfval"

record 's applications_ms_meta =
  Applications_MsClient :: "'s ApplicationsClient"

subsection \<open>Helpers of package msgraph\<close>

fun ApplicationFindByName_loop :: "string \<Rightarrow> application list \<Rightarrow> application option" where
  "ApplicationFindByName_loop displayName [] = None"
| "ApplicationFindByName_loop displayName (app # rest) =
     (if App_DisplayName app \<noteq> None \<and> App_DisplayName app = Some displayName then Some app
      else ApplicationFindByName_loop displayName rest)"

definition ApplicationFindByName ::
  "'s ApplicationsClient \<Rightarrow> string \<Rightarrow> 's world \<Rightarrow> application option outcome \<times> 's world" where
  "ApplicationFindByName client displayName w =
     (let filter = displayName_filter displayName in
      case issue (MsApps (AppsList filter)) (ac_List client filter) w of
        (Failed status, w1) \<Rightarrow> (Error, w1)
      | (Ok None, w1) \<Rightarrow> (Ret None, w1)
      | (Ok (Some result), w1) \<Rightarrow> (Ret (ApplicationFindByName_loop displayName result), w1))"






definition Application_AppendOwner :: "string \<Rightarrow> string \<Rightarrow> string \<Rightarrow> application \<Rightarrow> application" where
  "Application_AppendOwner endpoint apiVersion oid a =
     a\<lparr>App_Owners := Some ((case App_Owners a of None \<Rightarrow> [] | Some os \<Rightarrow> os)
                             @ [odata_ref endpoint apiVersion oid])\<rparr>"

definition ApplicationSetOwners ::
  "'s ApplicationsClient \<Rightarrow> application \<Rightarrow> string list \<Rightarrow> 's world \<Rightarrow> unit outcome \<times> 's world" where
  "ApplicationSetOwners client application desiredOwners w =
     (case App_ID application of
        None \<Rightarrow> (Error, w)
      | Some aid \<Rightarrow>
     (case issue (MsApps (AppsListOwners aid)) (ac_ListOwners client aid) w of
        (Failed status, w1) \<Rightarrow> (Error, w1)
      | (Ok None, w1) \<Rightarrow> (Panicked, w1)
      | (Ok (Some existingOwners), w1) \<Rightarrow>
     (let ownersForRemoval = Difference existingOwners desiredOwners;
          ownersToAdd = Difference desiredOwners existingOwners
      in
      case (if ownersForRemoval \<noteq> []
            then (case issue (MsApps (AppsRemoveOwners aid ownersForRemoval))
                             (ac_RemoveOwners client aid ownersForRemoval) w1 of
                    (Failed status, w2) \<Rightarrow> (Error, w2)
                  | (Ok u, w2) \<Rightarrow> (Ret (), w2))
            else (Ret (), w1)) of
        (Panicked, w2) \<Rightarrow> (Panicked, w2)
      | (Error, w2) \<Rightarrow> (Error, w2)
      | (Ret u, w2) \<Rightarrow>
          if ownersToAdd \<noteq> []
          then (let application' = fold (Application_AppendOwner (ac_Endpoint client) (ac_ApiVersion client))
                                        ownersToAdd application in
                case issue (MsApps (AppsAddOwners application')) (ac_AddOwners client application') w2 of
                  (Failed status, w3) \<Rightarrow> (Error, w3)
                | (Ok u', w3) \<Rightarrow> (Ret (), w3))
          else (Ret (), w2))))"

subsection \<open>Create\<close>

definition sign_in_audience :: "resource_data \<Rightarrow> string" where
  "sign_in_audience d =
     (case GetOk d ''available_to_other_tenants'' of
        Some v \<Rightarrow> if as_bool v then SignInAudienceAzureADMultipleOrgs else SignInAudienceAzureADMyOrg
      | None \<Rightarrow> SignInAudienceAzureADMyOrg)"

text \<open>The scope \<open>user_impersonation\<close> that \<open>applicationResourceCreateMsGraph\<close> adds when no
  scope is configured.\<close>

definition default_scope :: "string \<Rightarrow> string \<Rightarrow> permission_scope" where
  "default_scope displayName sid =
     \<lparr>Scope_IsEnabled = Some True,
      Scope_fields = VMap
        [(''AdminConsentDescription'',
            VString (''Allow the application to access '' @ displayName @ '' on behalf of the signed-in user.'')),
         (''AdminConsentDisplayName'', VString (''Access '' @ displayName)),
         (''ID'', VString sid),
         (''Type'', VString ''User''),
         (''UserConsentDescription'',
            VString (''Allow the application to access '' @ displayName @ '' on your behalf.'')),
         (''UserConsentDisplayName'', VString (''Access '' @ displayName)),
         (''Value'', VString ''user_impersonation'')]\<rparr>"

definition applicationResourceCreateMsGraph_properties ::
  "'s framework \<Rightarrow> 's ms_codec \<Rightarrow> resource_data \<Rightarrow> string \<Rightarrow> 's world \<Rightarrow> application \<times> 's world" where
  "applicationResourceCreateMsGraph_properties fw cd d displayName w =
     (let web0 = \<lparr>Web_HomePageUrl = None, Web_LogoutUrl = None, Web_RedirectUris = None,
                  Web_ImplicitGrantSettings =
                    Some \<lparr>EnableAccessTokenIssuance = Some (Get_bool d ''oauth2_allow_implicit_flow'')\<rparr>\<rparr>;
          p0 = empty_application
                 \<lparr>App_DisplayName := Some displayName,
                  App_IdentifierUris := Some (ExpandStringSlice (Get_raw d ''identifier_uris'')),
                  App_OptionalClaims := ms_expandApplicationOptionalClaims cd (Set_List (Get_raw d ''optional_claims'')),
                  App_RequiredResourceAccess :=
                    ms_expandApplicationRequiredResourceAccess cd (Set_List (Get_raw d ''required_resource_access'')),
                  App_SignInAudience := sign_in_audience d\<rparr>
      in
      case (case GetOk d ''app_role'' of
              Some v \<Rightarrow> (case quiet (ms_expandApplicationAppRoles cd (Set_List v)) w of
                          (roles, w1) \<Rightarrow> (p0\<lparr>App_AppRoles := roles\<rparr>, w1))
            | None \<Rightarrow> (p0, w)) of
        (p1, w1) \<Rightarrow>
      (let p2 = (case GetOk d ''group_membership_claims'' of
                   Some v \<Rightarrow> p1\<lparr>App_GroupMembershipClaims := Some (as_string v)\<rparr>
                 | None \<Rightarrow> p1);
           web1 = (case GetOk d ''homepage'' of
                     Some v \<Rightarrow> web0\<lparr>Web_HomePageUrl := Some (as_string v)\<rparr> | None \<Rightarrow> web0);
           web2 = (case GetOk d ''logout_url'' of
                     Some v \<Rightarrow> web1\<lparr>Web_LogoutUrl := Some (as_string v)\<rparr> | None \<Rightarrow> web1)
       in
       case (case GetOk d ''oauth2_permissions'' of
               Some v \<Rightarrow> quiet (ms_expandApplicationOAuth2Permissions cd (Set_List v)) w1
             | None \<Rightarrow>
                 (case quiet (GenerateUUID fw) w1 of
                    (i, w2) \<Rightarrow> (Some [default_scope displayName (case i of None \<Rightarrow> [] | Some x \<Rightarrow> x)], w2))) of
         (scopes, w2) \<Rightarrow>
       (let p3 = p2\<lparr>App_Api := Some \<lparr>Api_OAuth2PermissionScopes = scopes\<rparr>\<rparr>;
            p4 = (case GetOk d ''public_client'' of
                    Some v \<Rightarrow> p3\<lparr>App_IsFallbackPublicClient := Some (as_bool v)\<rparr> | None \<Rightarrow> p3);
            web3 = (case GetOk d ''reply_urls'' of
                      Some v \<Rightarrow> web2\<lparr>Web_RedirectUris := Some (ExpandStringSlice v)\<rparr> | None \<Rightarrow> web2)
        in
        if Get_raw d ''type'' = VString ''native''
        then (p4\<lparr>App_Web := Some (web3\<lparr>Web_HomePageUrl := None\<rparr>),
                  App_IdentifierUris := Some [],
                  App_IsFallbackPublicClient := Some True\<rparr>, w2)
        else (p4\<lparr>App_Web := Some web3\<rparr>, w2))))"

definition applicationResourceMsGraph_validate ::
  "resource_data \<Rightarrow> 's world \<Rightarrow> exit option \<times> 's world" where
  "applicationResourceMsGraph_validate d w =
     (case applicationValidateRolesScopes (Set_List (Get_raw d ''app_role'')) (Set_List (Get_raw d ''oauth2_permissions'')) of
        Panicked \<Rightarrow> (Some Panic, w)
      | Error \<Rightarrow>
          (Some (diags (ErrorDiagPathF ''app_role'' ''Checking for duplicate app role / oauth2_permissions values'' [])), w)
      | Ret u \<Rightarrow>
          if Get_raw d ''type'' = VString ''native'' \<and> GetOk d ''identifier_uris'' \<noteq> None
          then (Some (diags (ErrorDiagPathF ''identifier_uris'' ''Property is not required for a native application'' [])), w)
          else (None, w))"

definition applicationResourceCreateMsGraph_checks ::
  "'s applications_ms_meta \<Rightarrow> resource_data \<Rightarrow> string \<Rightarrow> 's world \<Rightarrow> exit option \<times> 's world" where
  "applicationResourceCreateMsGraph_checks meta d displayName w =
     (let client = Applications_MsClient meta in
      case (if Get_bool d ''prevent_duplicate_names''
            then (case ApplicationFindByName client displayName w of
                    (Panicked, w1) \<Rightarrow> (Some Panic, w1)
                  | (Error, w1) \<Rightarrow>
                      (Some (diags (ErrorDiagPathF ''name'' ''Could not check for existing application(s)'' [])), w1)
                  | (Ret (Some existingApp), w1) \<Rightarrow>
                      (case App_ID existingApp of
                         None \<Rightarrow> (Some (diags (ImportAsDuplicateDiag ''azuread_application'' ''unknown'' displayName)), w1)
                       | Some aid \<Rightarrow> (Some (diags (ImportAsDuplicateDiag ''azuread_application'' aid displayName)), w1))
                  | (Ret None, w1) \<Rightarrow> (None, w1))
            else (None, w)) of
        (Some e, w1) \<Rightarrow> (Some e, w1)
      | (None, w1) \<Rightarrow> applicationResourceMsGraph_validate d w1)"

subsection \<open>Read and Delete\<close>

definition applicationResourceReadMsGraph_web ::
  "'s framework \<Rightarrow> 's ms_codec \<Rightarrow> application \<Rightarrow> (string \<times> tfval) list" where
  "applicationResourceReadMsGraph_web fw cd app =
     (case App_Api app of
        None \<Rightarrow> []
      | Some api \<Rightarrow>
          [(''oauth2_permissions'', ms_flattenApplicationOAuth2Permissions cd (Api_OAuth2PermissionScopes api))])
     @ (case App_Web app of
          None \<Rightarrow> []
        | Some web \<Rightarrow>
            [(''homepage'', opt_string (Web_HomePageUrl web)),
             (''logout_url'', opt_string (Web_LogoutUrl web)),
             (''reply_urls'', FlattenStringSlicePtr (Web_RedirectUris web))]
            @ (case Web_ImplicitGrantSettings web of
                 None \<Rightarrow> []
               | Some igs \<Rightarrow> [(''oauth2_allow_implicit_flow'', opt_bool (EnableAccessTokenIssuance igs))]))"

definition applicationResourceReadMsGraph ::
  "'s framework \<Rightarrow> 's ms_codec \<Rightarrow> 's applications_ms_meta \<Rightarrow> resource_data \<Rightarrow> 's world
     \<Rightarrow> exit \<times> resource_data \<times> 's world" where
  "applicationResourceReadMsGraph fw cd meta d w =
     (let client = Applications_MsClient meta in
      case issue (MsApps (AppsGet (rd_Id d))) (ac_Get client (rd_Id d)) w of
        (Failed status, w1) \<Rightarrow>
          if status = StatusNotFound then (Return None, SetId [] d, w1)
          else (diags (ErrorDiagPathF ''id'' ''Retrieving Application with object ID %q'' [rd_Id d]), d, w1)
      | (Ok app, w1) \<Rightarrow>
          (case tfSetAll fw
                  [(''object_id'', opt_string (App_ID app)),
                   (''application_id'', opt_string (App_AppId app)),
                   (''app_role'', ms_flattenApplicationAppRoles cd (App_AppRoles app)),
                   (''available_to_other_tenants'', VBool (App_SignInAudience app = SignInAudienceAzureADMultipleOrgs)),
                   (''display_name'', opt_string (App_DisplayName app)),
                   (''name'', opt_string (App_DisplayName app)),
                   (''group_membership_claims'', opt_string (App_GroupMembershipClaims app)),
                   (''identifier_uris'', FlattenStringSlicePtr (App_IdentifierUris app)),
                   (''optional_claims'', ms_flattenApplicationOptionalClaims cd (App_OptionalClaims app))] d of
             (Some dg, d1) \<Rightarrow> (diags dg, d1, w1)
           | (None, d1) \<Rightarrow>
          (case App_ID app of
             None \<Rightarrow> (Panic, d1, w1)
           | Some aid \<Rightarrow>
          (case issue (MsApps (AppsListOwners aid)) (ac_ListOwners client aid) w1 of
             (Failed status, w2) \<Rightarrow>
               (diags (ErrorDiagPathF ''owners'' ''Could not retrieve owners for application with object ID %q'' [aid]), d1, w2)
           | (Ok owners, w2) \<Rightarrow>
          (case tfSetAll fw
                  ([(''owners'', opt_strings owners),
                    (''public_client'', opt_bool (App_IsFallbackPublicClient app)),
                    (''required_resource_access'',
                       ms_flattenApplicationRequiredResourceAccess cd (App_RequiredResourceAccess app)),
                    (''type'', VString (if App_IsFallbackPublicClient app = Some True then ''native'' else ''webapp/api''))]
                   @ applicationResourceReadMsGraph_web fw cd app) d1 of
             (Some dg, d2) \<Rightarrow> (diags dg, d2, w2)
           | (None, d2) \<Rightarrow>
          (case tfSet fw ''prevent_duplicate_names'' (VBool (Get_bool d2 ''prevent_duplicate_names'')) d2 of
             (Some dg, d3) \<Rightarrow> (diags dg, d3, w2)
           | (None, d3) \<Rightarrow> (Return None, d3, w2)))))))"

definition applicationResourceDeleteMsGraph ::
  "'s applications_ms_meta \<Rightarrow> resource_data \<Rightarrow> 's world \<Rightarrow> exit \<times> resource_data \<times> 's world" where
  "applicationResourceDeleteMsGraph meta d w = (Return None, d, w)"

definition applicationResourceCreateMsGraph_displayName :: "resource_data \<Rightarrow> string" where
  "applicationResourceCreateMsGraph_displayName d =
     (case GetOk d ''display_name'' of
        Some v \<Rightarrow> if as_string v \<noteq> [] then as_string v else Get_string d ''name''
      | None \<Rightarrow> Get_string d ''name'')"

definition applicationResourceCreateMsGraph ::
  "'s framework \<Rightarrow> 's ms_codec \<Rightarrow> 's applications_ms_meta \<Rightarrow> resource_data \<Rightarrow> 's world
     \<Rightarrow> exit \<times> resource_data \<times> 's world" where
  "applicationResourceCreateMsGraph fw cd meta d w =
     (let client = Applications_MsClient meta;
          displayName = applicationResourceCreateMsGraph_displayName d
      in
      case applicationResourceCreateMsGraph_checks meta d displayName w of
        (Some e, w1) \<Rightarrow> (e, d, w1)
      | (None, w1) \<Rightarrow>
      (case applicationResourceCreateMsGraph_properties fw cd d displayName w1 of
         (properties, w2) \<Rightarrow>
      (case issue (MsApps (AppsCreate properties)) (ac_Create client properties) w2 of
         (Failed status, w3) \<Rightarrow> (diags (ErrorDiagF ''Could not create application'' []), d, w3)
       | (Ok app, w3) \<Rightarrow>
      (case App_ID app of
         None \<Rightarrow> (diags (ErrorDiagF ''Object ID returned for application is nil/empty'' []), d, w3)
       | Some aid \<Rightarrow>
      if aid = [] then (diags (ErrorDiagF ''Object ID returned for application is nil/empty'' []), d, w3) else
      (let d1 = SetId aid d in
       case (case GetOk d1 ''owners'' of
               Some v \<Rightarrow>
                 (case ApplicationSetOwners client app (ExpandStringSlice v) w3 of
                    (Panicked, w4) \<Rightarrow> (Some Panic, w4)
                  | (Error, w4) \<Rightarrow>
                      (Some (diags (ErrorDiagPathF ''owners'' ''Could not set owners for application with object ID: %q'' [aid])), w4)
                  | (Ret u, w4) \<Rightarrow> (None, w4))
             | None \<Rightarrow> (None, w3)) of
         (Some e, w4) \<Rightarrow> (e, d1, w4)
       | (None, w4) \<Rightarrow> applicationResourceReadMsGraph fw cd meta d1 w4)))))"

subsection \<open>Update\<close>






section \<open>Service principals\<close>

text \<open>\<open>graphrbac.ServicePrincipalsClient\<close>, and \<open>aadgraph.WaitForCreationReplication\<close> as
  its last field.\<close>

record 's ServicePrincipalsClient =
  spc_Create :: "service_principal_create_parameters \<Rightarrow> 's \<Rightarrow> service_principal reply \<times> 's"
  spc_Update :: "string \<Rightarrow> service_principal_update_parameters \<Rightarrow> 's \<Rightarrow> unit reply \<times> 's"
  spc_Get :: "string \<Rightarrow> 's \<Rightarrow> service_principal reply \<times> 's"
  spc_Delete :: "string \<Rightarrow> 's \<Rightarrow> unit reply \<times> 's"
  spc_WaitForCreationReplication :: "call \<Rightarrow> 's \<Rightarrow> unit outcome \<times> 's"

record 's service_principals_meta =
  ServicePrincipals_ServicePrincipalsClient :: "'s ServicePrincipalsClient"

definition servicePrincipalResourceRead ::
  "'s framework \<Rightarrow> 's aad_codec \<Rightarrow> 's service_principals_meta \<Rightarrow> resource_data \<Rightarrow> 's world
     \<Rightarrow> exit \<times> resource_data \<times> 's world" where
  "servicePrincipalResourceRead fw cd meta d w =
     (let client = ServicePrincipals_ServicePrincipalsClient meta;
          objectId = rd_Id d
      in
      case issue (SPs (SPGet objectId)) (spc_Get client objectId) w of
        (Failed status, w1) \<Rightarrow>
          if ResponseWasNotFound status then (Return None, SetId [] d, w1)
          else (diags (ErrorDiagF ''retrieving service principal with object ID: %q'' [rd_Id d]), d, w1)
      | (Ok sp, w1) \<Rightarrow>
          (case tfSetAll fw
                  [(''object_id'', opt_string (SP_ObjectID sp)),
                   (''application_id'', opt_string (SP_AppID sp)),
                   (''display_name'', opt_string (SP_DisplayName sp)),
                   (''app_role_assignment_required'', opt_bool (SP_AppRoleAssignmentRequired sp)),
                   (''tags'', opt_strings (SP_Tags sp)),
                   (''app_roles'', aad_FlattenAppRoles cd (SP_AppRoles sp)),
                   (''oauth2_permissions'', aad_FlattenOauth2Permissions cd (SP_Oauth2Permissions sp))] d of
             (Some dg, d1) \<Rightarrow> (diags dg, d1, w1)
           | (None, d1) \<Rightarrow> (Return None, d1, w1)))"

definition servicePrincipalResourceCreate_properties ::
  "resource_data \<Rightarrow> service_principal_create_parameters" where
  "servicePrincipalResourceCreate_properties d =
     (let p0 = \<lparr>SPC_AppID = Some (Get_string d ''application_id''),
                SPC_AccountEnabled = Some True,
                SPC_AppRoleAssignmentRequired = None,
                SPC_Tags = None\<rparr>;
          p1 = (case GetOk d ''app_role_assignment_required'' of
                  Some v \<Rightarrow> p0\<lparr>SPC_AppRoleAssignmentRequired := Some (as_bool v)\<rparr>
                | None \<Rightarrow> p0)
      in case GetOk d ''tags'' of
           Some v \<Rightarrow> p1\<lparr>SPC_Tags := Some (ExpandStringSlice v)\<rparr>
         | None \<Rightarrow> p1)"

definition servicePrincipalResourceCreate ::
  "'s framework \<Rightarrow> 's aad_codec \<Rightarrow> 's service_principals_meta \<Rightarrow> resource_data \<Rightarrow> 's world
     \<Rightarrow> exit \<times> resource_data \<times> 's world" where
  "servicePrincipalResourceCreate fw cd meta d w =
     (let client = ServicePrincipals_ServicePrincipalsClient meta;
          properties = servicePrincipalResourceCreate_properties d
      in
      case issue (SPs (SPCreate properties)) (spc_Create client properties) w of
        (Failed status, w1) \<Rightarrow> (diags (ErrorDiagF ''Could not create service principal'' []), d, w1)
      | (Ok sp, w1) \<Rightarrow>
      (case SP_ObjectID sp of
         None \<Rightarrow> (diags (ErrorDiagF ''Bad API response'' []), d, w1)
       | Some oid \<Rightarrow>
      if oid = [] then (diags (ErrorDiagF ''Bad API response'' []), d, w1) else
      (let d1 = SetId oid d in
       case issue (WaitForCreationReplication (SPs (SPGet oid)))
                  (spc_WaitForCreationReplication client (SPs (SPGet oid))) w1 of
         (Panicked, w2) \<Rightarrow> (Panic, d1, w2)
       | (Error, w2) \<Rightarrow> (diags (ErrorDiagF ''Waiting for service principal with object ID: %q'' [oid]), d1, w2)
       | (Ret u, w2) \<Rightarrow> servicePrincipalResourceRead fw cd meta d1 w2)))"

definition servicePrincipalResourceUpdate_properties ::
  "resource_data \<Rightarrow> service_principal_update_parameters" where
  "servicePrincipalResourceUpdate_properties d =
     (let p0 = \<lparr>SPU_AppRoleAssignmentRequired = None, SPU_Tags = None\<rparr>;
          p1 = (if HasChange d ''app_role_assignment_required''
                then p0\<lparr>SPU_AppRoleAssignmentRequired := Some (Get_bool d ''app_role_assignment_required'')\<rparr>
                else p0)
      in if HasChange d ''tags''
         then (case GetOk d ''tags'' of
                 Some v \<Rightarrow> p1\<lparr>SPU_Tags := Some (ExpandStringSlice v)\<rparr>
               | None \<Rightarrow> p1\<lparr>SPU_Tags := Some []\<rparr>)
         else p1)"

definition servicePrincipalResourceUpdate ::
  "'s framework \<Rightarrow> 's aad_codec \<Rightarrow> 's service_principals_meta \<Rightarrow> resource_data \<Rightarrow> 's world
     \<Rightarrow> exit \<times> resource_data \<times> 's world" where
  "servicePrincipalResourceUpdate fw cd meta d w =
     (let client = ServicePrincipals_ServicePrincipalsClient meta;
          properties = servicePrincipalResourceUpdate_properties d
      in
      case issue (SPs (SPUpdate (rd_Id d) properties)) (spc_Update client (rd_Id d) properties) w of
        (Failed status, w1) \<Rightarrow> (diags (ErrorDiagF ''Updating service principal with object ID: %q'' [rd_Id d]), d, w1)
      | (Ok u, w1) \<Rightarrow>
      (case issue (WaitForCreationReplication (SPs (SPGet (rd_Id d))))
                  (spc_WaitForCreationReplication client (SPs (SPGet (rd_Id d)))) w1 of
         (Panicked, w2) \<Rightarrow> (Panic, d, w2)
       | (Error, w2) \<Rightarrow> (diags (ErrorDiagF ''Waiting for service principal with object ID: %q'' [rd_Id d]), d, w2)
       | (Ret u', w2) \<Rightarrow> servicePrincipalResourceRead fw cd meta d w2))"

definition servicePrincipalResourceDelete ::
  "'s service_principals_meta \<Rightarrow> resource_data \<Rightarrow> 's world \<Rightarrow> exit \<times> resource_data \<times> 's world" where
  "servicePrincipalResourceDelete meta d w =
     (let client = ServicePrincipals_ServicePrincipalsClient meta;
          applicationId = rd_Id d
      in
      case issue (SPs (SPDelete applicationId)) (spc_Delete client applicationId) w of
        (Failed status, w1) \<Rightarrow>
          if \<not> ResponseWasNotFound status
          then (diags (ErrorDiagF ''Deleting service principal with object ID: %q'' [rd_Id d]), d, w1)
          else (Return None, d, w1)
      | (Ok app, w1) \<Rightarrow> (Return None, d, w1))"

section \<open>A stub backend for concrete runs\<close>

text \<open>Clients that answer every call with a fixed reply and keep no state, an SDK whose
  \<open>tf.Set\<close> stores the attribute, and codecs that pass nested blocks through.  They serve
  to run the handlers on concrete inputs.\<close>

definition stub_framework :: "unit framework" where
  "stub_framework =
     \<lparr>tfSet = (\<lambda>k v d. (None, d\<lparr>rd_planned := (rd_planned d)(k \<mapsto> v)\<rparr>)),
      GenerateUUID = (\<lambda>s. (Some ''6b1c6b1c-0000-4000-8000-000000000001'', s))\<rparr>"

definition stub_GroupsClient ::
  "group list option reply \<Rightarrow> group reply \<Rightarrow> group reply \<Rightarrow> string list option reply
     \<Rightarrow> string list option reply \<Rightarrow> unit reply \<Rightarrow> unit GroupsClient" where
  "stub_GroupsClient listed created got owners members deleted =
     \<lparr>gc_Endpoint = ''https://graph.microsoft.com'',
      gc_ApiVersion = ''beta'',
      gc_List = (\<lambda>f s. (listed, s)),
      gc_Create = (\<lambda>g s. (created, s)),
      gc_Get = (\<lambda>i s. (got, s)),
      gc_ListOwners = (\<lambda>i s. (owners, s)),
      gc_ListMembers = (\<lambda>i s. (members, s)),
      gc_Update = (\<lambda>g s. (Ok (), s)),
      gc_RemoveMembers = (\<lambda>i ms s. (Ok (), s)),
      gc_AddMembers = (\<lambda>g s. (Ok (), s)),
      gc_RemoveOwners = (\<lambda>i os s. (Ok (), s)),
      gc_AddOwners = (\<lambda>g s. (Ok (), s)),
      gc_Delete = (\<lambda>i s. (deleted, s)),
      gc_WaitForCreationReplication = (\<lambda>c s. (Ret (), s))\<rparr>"

definition stub_AadGroupsClient ::
  "adgroup reply \<Rightarrow> unit reply \<Rightarrow> adgroup option outcome \<Rightarrow> string list \<Rightarrow> unit AadGroupsClient" where
  "stub_AadGroupsClient got deleted found existing =
     \<lparr>agc_Get = (\<lambda>i s. (got, s)),
      agc_Create = (\<lambda>p s. (got, s)),
      agc_Delete = (\<lambda>i s. (deleted, s)),
      agc_RemoveOwner = (\<lambda>g i s. (Ok (), s)),
      agc_GroupFindByName = (\<lambda>n s. (found, s)),
      agc_GroupAddMembers = (\<lambda>g ms s. (Ret (), s)),
      agc_GroupAllOwners = (\<lambda>g s. (Ret existing, s)),
      agc_GroupAddOwners = (\<lambda>g os s. (Ret (), s)),
      agc_GroupAllMembers = (\<lambda>g s. (Ret existing, s)),
      agc_GroupRemoveMember = (\<lambda>g m s. (Ret (), s)),
      agc_GroupAddMember = (\<lambda>g m s. (Ret (), s)),
      agc_WaitForListRemove = (\<lambda>m c s. (Ret (), s)),
      agc_WaitForCreationReplication = (\<lambda>c s. (Ret (), s))\<rparr>"

definition stub_groups_meta :: "bool \<Rightarrow> unit GroupsClient \<Rightarrow> unit groups_meta" where
  "stub_groups_meta beta client =
     \<lparr>EnableMsGraphBeta = beta,
      Groups_MsClient = client,
      Groups_AadClient = stub_AadGroupsClient (Failed 500) (Failed 500) Error []\<rparr>"

definition stub_aad_groups_meta :: "unit AadGroupsClient \<Rightarrow> unit groups_meta" where
  "stub_aad_groups_meta client =
     \<lparr>EnableMsGraphBeta = False,
      Groups_MsClient = stub_GroupsClient (Failed 500) (Failed 500) (Failed 500) (Failed 500) (Failed 500) (Failed 500),
      Groups_AadClient = client\<rparr>"

definition stub_AadApplicationsClient ::
  "aad_application reply \<Rightarrow> unit reply \<Rightarrow> unit reply \<Rightarrow> aad_application option outcome \<Rightarrow> string list
     \<Rightarrow> unit AadApplicationsClient" where
  "stub_AadApplicationsClient got patched deleted found existing =
     \<lparr>aac_Create = (\<lambda>p s. (got, s)),
      aac_Get = (\<lambda>i s. (got, s)),
      aac_Patch = (\<lambda>i p s. (patched, s)),
      aac_Delete = (\<lambda>i s. (deleted, s)),
      aac_RemoveOwner = (\<lambda>i x s. (Ok (), s)),
      aac_ApplicationFindByName = (\<lambda>n s. (found, s)),
      aac_WaitForCreationReplication = (\<lambda>c s. (Ret (), s)),
      aac_AppRolesSet = (\<lambda>i r s. (Ret (), s)),
      aac_OAuth2PermissionsSet = (\<lambda>i p s. (Ret (), s)),
      aac_ApplicationAllOwners = (\<lambda>i s. (Ret existing, s)),
      aac_ApplicationAddOwners = (\<lambda>i os s. (Ret (), s))\<rparr>"

definition stub_ApplicationsClient ::
  "application list option reply \<Rightarrow> application reply \<Rightarrow> application reply \<Rightarrow> string list option reply
     \<Rightarrow> unit ApplicationsClient" where
  "stub_ApplicationsClient listed created got owners =
     \<lparr>ac_Endpoint = ''https://graph.microsoft.com'',
      ac_ApiVersion = ''beta'',
      ac_List = (\<lambda>f s. (listed, s)),
      ac_Create = (\<lambda>a s. (created, s)),
      ac_Get = (\<lambda>i s. (got, s)),
      ac_Update = (\<lambda>a s. (Ok (), s)),
      ac_ListOwners = (\<lambda>i s. (owners, s)),
      ac_RemoveOwners = (\<lambda>i os s. (Ok (), s)),
      ac_AddOwners = (\<lambda>a s. (Ok (), s))\<rparr>"

definition stub_ServicePrincipalsClient ::
  "service_principal reply \<Rightarrow> unit reply \<Rightarrow> unit ServicePrincipalsClient" where
  "stub_ServicePrincipalsClient got deleted =
     \<lparr>spc_Create = (\<lambda>p s. (got, s)),
      spc_Update = (\<lambda>i p s. (Ok (), s)),
      spc_Get = (\<lambda>i s. (got, s)),
      spc_Delete = (\<lambda>i s. (deleted, s)),
      spc_WaitForCreationReplication = (\<lambda>c s. (Ret (), s))\<rparr>"

definition stub_aad_codec :: "unit aad_codec" where
  "stub_aad_codec =
     \<lparr>aad_expandApplicationRequiredResourceAccess = (\<lambda>d. Some (Get_raw d ''required_resource_access'')),
      aad_expandApplicationOptionalClaims = (\<lambda>d. Some (Get_raw d ''optional_claims'')),
      aad_expandApplicationAppRoles = (\<lambda>v s. (Some v, s)),
      aad_expandApplicationOAuth2Permissions = (\<lambda>v s. (Some v, s)),
      aad_flattenApplicationRequiredResourceAccess = (\<lambda>p. case p of None \<Rightarrow> VList [] | Some v \<Rightarrow> v),
      aad_flattenApplicationOptionalClaims = (\<lambda>p. case p of None \<Rightarrow> VList [] | Some v \<Rightarrow> v),
      aad_FlattenAppRoles = (\<lambda>p. case p of None \<Rightarrow> VList [] | Some v \<Rightarrow> v),
      aad_FlattenOauth2Permissions = (\<lambda>p. case p of None \<Rightarrow> VList [] | Some v \<Rightarrow> v)\<rparr>"

definition stub_ms_codec :: "unit ms_codec" where
  "stub_ms_codec =
     \<lparr>ms_expandApplicationAppRoles =
        (\<lambda>vs s. (if vs = [] then None
                  else Some (map (\<lambda>v. \<lparr>AppRole_IsEnabled = Some True, AppRole_fields = v\<rparr>) vs), s)),
      ms_expandApplicationOAuth2Permissions =
        (\<lambda>vs s. (Some (map (\<lambda>v. \<lparr>Scope_IsEnabled = Some True, Scope_fields = v\<rparr>) vs), s)),
      ms_expandApplicationOptionalClaims = (\<lambda>vs. Some (VList vs)),
      ms_expandApplicationRequiredResourceAccess = (\<lambda>vs. Some (VList vs)),
      ms_flattenApplicationAppRoles =
        (\<lambda>p. VList (map AppRole_fields (case p of None \<Rightarrow> [] | Some rs \<Rightarrow> rs))),
      ms_flattenApplicationOAuth2Permissions =
        (\<lambda>p. VList (map Scope_fields (case p of None \<Rightarrow> [] | Some ss \<Rightarrow> ss))),
      ms_flattenApplicationOptionalClaims = (\<lambda>p. case p of None \<Rightarrow> VList [] | Some v \<Rightarrow> v),
      ms_flattenApplicationRequiredResourceAccess = (\<lambda>p. case p of None \<Rightarrow> VList [] | Some v \<Rightarrow> v)\<rparr>"

definition stub_world :: "unit world" where
  "stub_world = \<lparr>calls = [], backend = ()\<rparr>"

definition stub_data :: "string \<Rightarrow> (string \<times> tfval) list \<Rightarrow> (string \<times> tfval) list \<Rightarrow> resource_data" where
  "stub_data i prior planned = \<lparr>rd_Id = i, rd_prior = map_of prior, rd_planned = map_of planned\<rparr>"

subsection \<open>Concrete inputs\<close>

definition c2_data :: resource_data where
  "c2_data = stub_data ''g1''
     [(''name'', VString ''team''), (''owners'', VList [VString ''A'', VString ''B''])]
     [(''name'', VString ''team''), (''owners'', VList [VString ''B'', VString ''C''])]"

definition c2_meta :: "unit groups_meta" where
  "c2_meta = stub_groups_meta True
     (stub_GroupsClient (Ok (Some [])) (Failed 500)
        (Ok (empty_group\<lparr>Group_ID := Some ''g1'', Group_DisplayName := Some ''team''\<rparr>))
        (Ok (Some [''A'', ''B''])) (Ok (Some [])) (Ok ()))"

definition c3_meta :: "unit groups_meta" where
  "c3_meta = stub_groups_meta True
     (stub_GroupsClient (Ok (Some [])) (Failed 500) (Failed StatusNotFound) (Failed 500) (Failed 500)
        (Failed StatusNotFound))"

definition c4_groups_meta :: "unit groups_meta" where
  "c4_groups_meta =
     \<lparr>EnableMsGraphBeta = True,
      Groups_MsClient = stub_GroupsClient (Ok (Some [])) (Failed 500) (Failed StatusNotFound) (Failed 500) (Failed 500) (Ok ()),
      Groups_AadClient = stub_AadGroupsClient (Failed StatusNotFound) (Ok ()) Error []\<rparr>"

definition c4_applications_meta :: "unit applications_meta" where
  "c4_applications_meta =
     \<lparr>Applications_ApplicationsClient =
        stub_AadApplicationsClient (Failed StatusNotFound) (Ok ()) (Ok ()) Error []\<rparr>"

definition c4_applications_ms_meta :: "unit applications_ms_meta" where
  "c4_applications_ms_meta =
     \<lparr>Applications_MsClient =
        stub_ApplicationsClient (Ok (Some [])) (Failed 500) (Failed StatusNotFound) (Failed 500)\<rparr>"

definition c4_service_principals_meta :: "unit service_principals_meta" where
  "c4_service_principals_meta =
     \<lparr>ServicePrincipals_ServicePrincipalsClient = stub_ServicePrincipalsClient (Failed StatusNotFound) (Ok ())\<rparr>"

definition c10_group :: group where
  "c10_group = empty_group\<lparr>Group_ID := Some [], Group_DisplayName := Some ''team''\<rparr>"

definition c10_meta :: "unit groups_meta" where
  "c10_meta = stub_groups_meta True
     (stub_GroupsClient (Ok (Some [])) (Ok c10_group) (Ok c10_group) (Ok (Some [])) (Ok (Some [])) (Ok ()))"

definition c10_data :: resource_data where
  "c10_data = stub_data [] [] [(''name'', VString ''team'')]"

definition c9_meta :: "unit reply \<Rightarrow> unit applications_meta" where
  "c9_meta patched =
     \<lparr>Applications_ApplicationsClient =
        stub_AadApplicationsClient (Failed 500) patched (Ok ()) Error []\<rparr>"

definition c9_data :: "bool \<Rightarrow> resource_data" where
  "c9_data shared = stub_data ''a1'' [] [(''available_to_other_tenants'', VBool shared)]"






definition c7_data :: resource_data where
  "c7_data = stub_data [] [] [(''name'', VString ''team''), (''prevent_duplicate_names'', VBool True)]"

text \<open>A group configured through \<open>display_name\<close>, the attribute that replaces the deprecated
  \<open>name\<close> (the schema asks for exactly one of the two), and a directory that holds a group
  \<open>g0\<close> named \<open>team\<close>: its name lookups answer with \<open>g0\<close> for \<open>team\<close> and with nothing for any
  other name, and it creates the group it is sent under the ID \<open>g2\<close>.\<close>

definition c7_display_name_data :: resource_data where
  "c7_display_name_data =
     stub_data [] [] [(''display_name'', VString ''team''), (''prevent_duplicate_names'', VBool True)]"

definition c7_directory_client :: "unit GroupsClient" where
  "c7_directory_client =
     (stub_GroupsClient (Ok (Some [])) (Failed 500) (Failed 500) (Ok (Some [])) (Ok (Some [])) (Ok ()))
       \<lparr>gc_List := (\<lambda>f s. (if f = displayName_filter ''team''
                            then Ok (Some [empty_group\<lparr>Group_ID := Some ''g0'', Group_DisplayName := Some ''team''\<rparr>])
                            else Ok (Some []), s)),
        gc_Create := (\<lambda>g s. (Ok (g\<lparr>Group_ID := Some ''g2''\<rparr>), s)),
        gc_Get := (\<lambda>i s. (Ok (empty_group\<lparr>Group_ID := Some i, Group_DisplayName := Some []\<rparr>), s))\<rparr>"

definition c7_directory_aad_client :: "unit AadGroupsClient" where
  "c7_directory_aad_client =
     (stub_AadGroupsClient (Failed 500) (Ok ()) Error [])
       \<lparr>agc_GroupFindByName := (\<lambda>n s. (if n = ''team''
                                       then Ret (Some \<lparr>ADGroup_ObjectID = Some ''g0'', ADGroup_DisplayName = Some ''team'',
                                                        ADGroup_AdditionalProperties = Map.empty\<rparr>)
                                       else Ret None, s)),
        agc_Create := (\<lambda>p s. (Ok \<lparr>ADGroup_ObjectID = Some ''g2'', ADGroup_DisplayName = GCP_DisplayName p,
                                    ADGroup_AdditionalProperties = Map.empty\<rparr>, s)),
        agc_Get := (\<lambda>i s. (Ok \<lparr>ADGroup_ObjectID = Some i, ADGroup_DisplayName = Some [],
                                 ADGroup_AdditionalProperties = Map.empty\<rparr>, s))\<rparr>"

definition c7_directory_meta :: "bool \<Rightarrow> unit groups_meta" where
  "c7_directory_meta beta =
     \<lparr>EnableMsGraphBeta = beta,
      Groups_MsClient = c7_directory_client,
      Groups_AadClient = c7_directory_aad_client\<rparr>"

definition c7_applications_ms_meta :: "unit applications_ms_meta" where
  "c7_applications_ms_meta =
     \<lparr>Applications_MsClient =
        stub_ApplicationsClient
          (Ok (Some [empty_application\<lparr>App_ID := Some ''a0'', App_DisplayName := Some ''team''\<rparr>]))
          (Failed 500) (Failed 500) (Failed 500)\<rparr>"







definition c2_aad_client :: "unit AadApplicationsClient" where
  "c2_aad_client = stub_AadApplicationsClient (Failed 500) (Ok ()) (Ok ()) Error [''A'', ''B'']"

definition c8_groups_client :: "string \<Rightarrow> string \<Rightarrow> unit GroupsClient" where
  "c8_groups_client oid t =
     stub_GroupsClient (Ok (Some [empty_group\<lparr>Group_ID := Some oid, Group_DisplayName := Some t\<rparr>]))
       (Failed 500) (Failed 500) (Failed 500) (Failed 500) (Ok ())"

definition c8_applications_client :: "string \<Rightarrow> string \<Rightarrow> unit ApplicationsClient" where
  "c8_applications_client oid t =
     stub_ApplicationsClient (Ok (Some [empty_application\<lparr>App_ID := Some oid, App_DisplayName := Some t\<rparr>]))
       (Failed 500) (Failed 500) (Failed 500)"

definition c8_members_meta :: "string \<Rightarrow> unit groups_meta" where
  "c8_members_meta t = stub_aad_groups_meta (stub_AadGroupsClient (Failed 500) (Ok ()) Error [t])"

definition c8_member_data :: "string \<Rightarrow> resource_data" where
  "c8_member_data s = stub_data [] [] [(''group_object_id'', VString ''g1''), (''member_object_id'', VString s)]"

lemmas stub_defs =
  stub_framework_def stub_GroupsClient_def stub_AadGroupsClient_def stub_groups_meta_def
  stub_aad_groups_meta_def stub_AadApplicationsClient_def stub_ApplicationsClient_def
  stub_ServicePrincipalsClient_def stub_aad_codec_def stub_ms_codec_def stub_world_def stub_data_def

lemmas access_defs = Get_bool_def Get_string_def Get_raw_def GetOk_def GetOkExists_def HasChange_def
  is_zero_def as_string_def as_bool_def ExpandStringSlice_def Set_List_def SetId_def
  opt_string_def opt_bool_def opt_strings_def FlattenStringSlicePtr_def

section \<open>Properties of the reconciliation\<close>

lemma Difference_set: "set (Difference a b) = set a - set b"
  by (auto simp: Difference_def)

text \<open>
  C1.  For all lists \<open>existing\<close> and \<open>desired\<close> of identifiers, read as finite sets, the two
  differences the handlers compute are \<open>toAdd = desired \ existing\<close> and
  \<open>toRemove = existing \ desired\<close>; adding \<open>toAdd\<close> to \<open>existing\<close> and removing \<open>toRemove\<close>
  gives exactly \<open>desired\<close>; \<open>toAdd\<close> and \<open>toRemove\<close> are disjoint, \<open>toAdd\<close> is disjoint from
  \<open>existing\<close> and \<open>toRemove\<close> is disjoint from \<open>desired\<close>.
\<close>

theorem reconcile_delta:
  "(let toRemove = Difference existing desired;
        toAdd = Difference desired existing
    in set toAdd = set desired - set existing
     \<and> set toRemove = set existing - set desired
     \<and> (set existing \<union> set toAdd) - set toRemove = set desired
     \<and> set toAdd \<inter> set toRemove = {}
     \<and> set toAdd \<inter> set existing = {}
     \<and> set toRemove \<inter> set desired = {})"
  unfolding Let_def Difference_set by blast





text \<open>\<open>applicationSetOwnersTo\<close>, whose comment reads "add owners first to prevent a possible
  situation where terraform revokes its own access before adding it back", does issue the
  addition first: from the owners \<open>[A, B]\<close> to the desired \<open>[B, C]\<close> it adds \<open>C\<close>, then
  removes \<open>A\<close>.\<close>

lemma applicationSetOwnersTo_adds_owner_first:
  "applicationSetOwnersTo c2_aad_client ''a1'' [''B'', ''C''] stub_world =
     (Ret (),
      \<lparr>calls = [AadApps (ApplicationAllOwners ''a1''),
                AadApps (ApplicationAddOwners ''a1'' [''C'']),
                AadApps (AadAppsRemoveOwner ''a1'' ''A'')],
       backend = ()\<rparr>)"
  by (simp add: applicationSetOwnersTo_def c2_aad_client_def stub_AadApplicationsClient_def
      stub_world_def issue_def Difference_def Let_def)

text \<open>
  C2.  Section 4.1 has additions issued before removals.  \<open>groupResourceUpdateMsGraph\<close> has
  them the other way round: updating the owners of a group from \<open>{A, B}\<close> to \<open>{B, C}\<close>, with
  \<open>A\<close> and \<open>B\<close> the owners the backend lists, the handler issues \<open>RemoveOwners\<close> for \<open>A\<close>
  first and \<open>AddOwners\<close> for \<open>C\<close> after it.
\<close>

theorem groupResourceUpdateMsGraph_removes_owner_first:
  "calls (snd (snd (groupResourceUpdateMsGraph stub_framework c2_meta c2_data stub_world))) =
     [MsGroups (GroupsUpdate (empty_group\<lparr>Group_ID := Some ''g1''\<rparr>)),
      MsGroups (GroupsListOwners ''g1''),
      MsGroups (GroupsRemoveOwners ''g1'' [''A'']),
      MsGroups (GroupsAddOwners (empty_group
         \<lparr>Group_ID := Some ''g1'',
          Group_Owners := Some [''https://graph.microsoft.com/beta/directoryObjects/C'']\<rparr>)),
      MsGroups (GroupsGet ''g1''),
      MsGroups (GroupsListOwners ''g1''),
      MsGroups (GroupsListMembers ''g1'')]"
  by (simp add: groupResourceUpdateMsGraph_def groupResourceUpdateMsGraph_fields_def
      groupResourceUpdateMsGraph_members_def groupResourceUpdateMsGraph_owners_def
      groupResourceUpdateMsGraph_group_def
      groupResourceReadMsGraph_def c2_meta_def c2_data_def stub_defs access_defs issue_def
      empty_group_def Difference_def AppendOwner_def odata_ref_def Let_def)

section \<open>Not-found answers\<close>

text \<open>The Delete handlers over AAD Graph test the response with \<open>ResponseWasNotFound\<close>
  and return no diagnostics for an object the backend reports as not found.\<close>

lemma Delete_not_found_tolerated:
  "agc_Delete (Groups_AadClient gm) (rd_Id d) (backend w) = (Failed StatusNotFound, s')
   \<Longrightarrow> groupResourceDeleteAadGraph gm d w =
         (Return None, d, \<lparr>calls = calls w @ [AadGroups (AadGroupsDelete (rd_Id d))], backend = s'\<rparr>)"
  "\<not> Get_bool d ''available_to_other_tenants''
   \<Longrightarrow> aac_Delete (Applications_ApplicationsClient am) (rd_Id d) (backend w) = (Failed StatusNotFound, s')
   \<Longrightarrow> applicationResourceDelete am d w =
         (Return None, d, \<lparr>calls = calls w @ [AadApps (AadAppsDelete (rd_Id d))], backend = s'\<rparr>)"
  "spc_Delete (ServicePrincipals_ServicePrincipalsClient sm) (rd_Id d) (backend w) = (Failed StatusNotFound, s')
   \<Longrightarrow> servicePrincipalResourceDelete sm d w =
         (Return None, d, \<lparr>calls = calls w @ [SPs (SPDelete (rd_Id d))], backend = s'\<rparr>)"
  by (simp_all add: groupResourceDeleteAadGraph_def applicationResourceDelete_def
      servicePrincipalResourceDelete_def issue_def ResponseWasNotFound_def Let_def)

text \<open>
  C3.  Section 7 has Delete of an object the backend reports as not found complete without
  error.  \<open>groupResourceDeleteMsGraph\<close> does not look at the status: when the backend
  answers the delete call with not-found, the handler returns the error diagnostic
  "Deleting group with object ID".
\<close>

theorem groupResourceDeleteMsGraph_not_found:
  "gc_Delete (Groups_MsClient meta) (rd_Id d) (backend w) = (Failed StatusNotFound, s')
   \<Longrightarrow> groupResourceDeleteMsGraph meta d w =
         (diags (ErrorDiagF ''Deleting group with object ID: %q'' [rd_Id d]), d,
          \<lparr>calls = calls w @ [MsGroups (GroupsDelete (rd_Id d))], backend = s'\<rparr>)"
  by (simp add: groupResourceDeleteMsGraph_def issue_def)

text \<open>The statement at a backend that answers the delete call with not-found.\<close>

theorem groupResourceDeleteMsGraph_not_found_witness:
  "groupResourceDeleteMsGraph c3_meta (stub_data ''g1'' [] []) stub_world =
     (diags (ErrorDiagF ''Deleting group with object ID: %q'' [''g1'']), stub_data ''g1'' [] [],
      \<lparr>calls = [MsGroups (GroupsDelete ''g1'')], backend = ()\<rparr>)"
  using groupResourceDeleteMsGraph_not_found [of c3_meta "stub_data ''g1'' [] []" stub_world "()"]
  by (simp add: c3_meta_def stub_defs)

text \<open>
  C4.  For every tracked object (group over either backend, application over either
  backend, service principal), when the backend answers the Get call of Read with a failure:
  if the status is not-found, Read clears the stored resource ID and returns no diagnostics;
  with any other status, Read returns an error diagnostic and leaves the resource data as
  it was.  In both cases the Get call is the only call issued.
\<close>

theorem Read_not_found_signals_absence:
  "(gc_Get (Groups_MsClient gm) (rd_Id d) (backend w) = (Failed status, s') \<longrightarrow>
      groupResourceReadMsGraph fw gm d w =
        (if status = StatusNotFound
         then (Return None, d\<lparr>rd_Id := []\<rparr>, \<lparr>calls = calls w @ [MsGroups (GroupsGet (rd_Id d))], backend = s'\<rparr>)
         else (diags (ErrorDiagF ''Retrieving group with object ID: %q'' [rd_Id d]), d,
               \<lparr>calls = calls w @ [MsGroups (GroupsGet (rd_Id d))], backend = s'\<rparr>)))
 \<and> (agc_Get (Groups_AadClient gm) (rd_Id d) (backend w) = (Failed status, s') \<longrightarrow>
      groupResourceReadAadGraph fw gm d w =
        (if status = StatusNotFound
         then (Return None, d\<lparr>rd_Id := []\<rparr>, \<lparr>calls = calls w @ [AadGroups (AadGroupsGet (rd_Id d))], backend = s'\<rparr>)
         else (diags (ErrorDiagF ''Retrieving group with object ID: %q'' [rd_Id d]), d,
               \<lparr>calls = calls w @ [AadGroups (AadGroupsGet (rd_Id d))], backend = s'\<rparr>)))
 \<and> (aac_Get (Applications_ApplicationsClient am) (rd_Id d) (backend w) = (Failed status, s') \<longrightarrow>
      applicationResourceRead fw acd am d w =
        (if status = StatusNotFound
         then (Return None, d\<lparr>rd_Id := []\<rparr>, \<lparr>calls = calls w @ [AadApps (AadAppsGet (rd_Id d))], backend = s'\<rparr>)
         else (diags (ErrorDiagPathF ''application_object_id'' ''Retrieving Application with object ID %q'' [rd_Id d]), d,
               \<lparr>calls = calls w @ [AadApps (AadAppsGet (rd_Id d))], backend = s'\<rparr>)))
 \<and> (ac_Get (Applications_MsClient mm) (rd_Id d) (backend w) = (Failed status, s') \<longrightarrow>
      applicationResourceReadMsGraph fw mcd mm d w =
        (if status = StatusNotFound
         then (Return None, d\<lparr>rd_Id := []\<rparr>, \<lparr>calls = calls w @ [MsApps (AppsGet (rd_Id d))], backend = s'\<rparr>)
         else (diags (ErrorDiagPathF ''id'' ''Retrieving Application with object ID %q'' [rd_Id d]), d,
               \<lparr>calls = calls w @ [MsApps (AppsGet (rd_Id d))], backend = s'\<rparr>)))
 \<and> (spc_Get (ServicePrincipals_ServicePrincipalsClient sm) (rd_Id d) (backend w) = (Failed status, s') \<longrightarrow>
      servicePrincipalResourceRead fw acd sm d w =
        (if status = StatusNotFound
         then (Return None, d\<lparr>rd_Id := []\<rparr>, \<lparr>calls = calls w @ [SPs (SPGet (rd_Id d))], backend = s'\<rparr>)
         else (diags (ErrorDiagF ''retrieving service principal with object ID: %q'' [rd_Id d]), d,
               \<lparr>calls = calls w @ [SPs (SPGet (rd_Id d))], backend = s'\<rparr>)))"
  by (simp add: groupResourceReadMsGraph_def groupResourceReadAadGraph_def applicationResourceRead_def
      applicationResourceReadMsGraph_def servicePrincipalResourceRead_def issue_def SetId_def
      ResponseWasNotFound_def Let_def)

text \<open>The five Read handlers at backends that answer the Get call with not-found.\<close>

theorem Read_not_found_signals_absence_witness:
  "groupResourceReadMsGraph stub_framework c4_groups_meta (stub_data ''x1'' [] []) stub_world =
     (Return None, stub_data [] [] [], \<lparr>calls = [MsGroups (GroupsGet ''x1'')], backend = ()\<rparr>)
 \<and> groupResourceReadAadGraph stub_framework c4_groups_meta (stub_data ''x1'' [] []) stub_world =
     (Return None, stub_data [] [] [], \<lparr>calls = [AadGroups (AadGroupsGet ''x1'')], backend = ()\<rparr>)
 \<and> applicationResourceRead stub_framework stub_aad_codec c4_applications_meta (stub_data ''x1'' [] []) stub_world =
     (Return None, stub_data [] [] [], \<lparr>calls = [AadApps (AadAppsGet ''x1'')], backend = ()\<rparr>)
 \<and> applicationResourceReadMsGraph stub_framework stub_ms_codec c4_applications_ms_meta (stub_data ''x1'' [] []) stub_world =
     (Return None, stub_data [] [] [], \<lparr>calls = [MsApps (AppsGet ''x1'')], backend = ()\<rparr>)
 \<and> servicePrincipalResourceRead stub_framework stub_aad_codec c4_service_principals_meta (stub_data ''x1'' [] []) stub_world =
     (Return None, stub_data [] [] [], \<lparr>calls = [SPs (SPGet ''x1'')], backend = ()\<rparr>)"
  using Read_not_found_signals_absence
    [of c4_groups_meta "stub_data ''x1'' [] []" stub_world StatusNotFound "()" stub_framework
        c4_applications_meta stub_aad_codec c4_applications_ms_meta stub_ms_codec c4_service_principals_meta]
  by (simp add: c4_groups_meta_def c4_applications_meta_def c4_applications_ms_meta_def
      c4_service_principals_meta_def stub_GroupsClient_def stub_AadGroupsClient_def
      stub_AadApplicationsClient_def stub_ApplicationsClient_def stub_ServicePrincipalsClient_def
      stub_world_def stub_data_def)

section \<open>Create and Delete\<close>

text \<open>\<open>groupResourceCreateAadGraph\<close> and \<open>servicePrincipalResourceCreate\<close> test the new
  object ID for nil and for the empty string, and return an error without setting the
  resource ID; \<open>applicationResourceCreate\<close> and \<open>applicationResourceCreateMsGraph\<close> have
  the same test.\<close>

lemma Create_rejects_empty_id:
  "\<not> Get_bool d ''prevent_duplicate_names''
   \<Longrightarrow> GenerateUUID fw (backend w) = (Some mailNickname, s1)
   \<Longrightarrow> agc_Create (Groups_AadClient gm) (groupResourceCreateAadGraph_properties d (Get_string d ''name'') mailNickname) s1
         = (Ok grp, s2)
   \<Longrightarrow> ADGroup_ObjectID grp = None \<or> ADGroup_ObjectID grp = Some []
   \<Longrightarrow> groupResourceCreateAadGraph fw gm d w =
         (diags (ErrorDiagF ''Bad API Response'' []), d,
          \<lparr>calls = calls w @ [AadGroups (AadGroupsCreate
                      (groupResourceCreateAadGraph_properties d (Get_string d ''name'') mailNickname))],
           backend = s2\<rparr>)"
  "spc_Create (ServicePrincipals_ServicePrincipalsClient sm) (servicePrincipalResourceCreate_properties d) (backend w)
         = (Ok sp, s2)
   \<Longrightarrow> SP_ObjectID sp = None \<or> SP_ObjectID sp = Some []
   \<Longrightarrow> servicePrincipalResourceCreate fw acd sm d w =
         (diags (ErrorDiagF ''Bad API response'' []), d,
          \<lparr>calls = calls w @ [SPs (SPCreate (servicePrincipalResourceCreate_properties d))], backend = s2\<rparr>)"
  by (auto simp: groupResourceCreateAadGraph_def servicePrincipalResourceCreate_def issue_def Let_def)

text \<open>
  C10.  A Create whose backend returns a nil or empty object ID is to return an error
  without setting the resource ID.  \<open>groupResourceCreateMsGraph\<close> tests the ID of the
  created group for nil only: at a backend that returns the empty string as ID it sets the
  empty resource ID, waits for and reads the group with the empty ID, and returns no
  diagnostics.
\<close>

theorem groupResourceCreateMsGraph_accepts_empty_id:
  "fst (groupResourceCreateMsGraph stub_framework c10_meta c10_data stub_world) = Return None
   \<and> rd_Id (fst (snd (groupResourceCreateMsGraph stub_framework c10_meta c10_data stub_world))) = []
   \<and> calls (snd (snd (groupResourceCreateMsGraph stub_framework c10_meta c10_data stub_world))) =
       [MsGroups (GroupsCreate (empty_group
          \<lparr>Group_DisplayName := Some ''team'',
           Group_MailNickname := Some ''6b1c6b1c-0000-4000-8000-000000000001'',
           Group_SecurityEnabled := Some True,
           Group_MailEnabled := Some False\<rparr>)),
        WaitForCreationReplication (MsGroups (GroupsGet [])),
        MsGroups (GroupsGet []),
        MsGroups (GroupsListOwners []),
        MsGroups (GroupsListMembers [])]"
  by (simp add: groupResourceCreateMsGraph_def groupResourceCreateMsGraph_properties_def
      groupResourceReadMsGraph_def c10_meta_def c10_data_def c10_group_def stub_defs access_defs
      issue_def empty_group_def Let_def)

text \<open>
  C9.  Delete of an application (\<open>applicationResourceDelete\<close>, the handler the resource
  registers).  When \<open>available_to_other_tenants\<close> is set in state, the handler first issues
  a patch whose only field is \<open>AvailableToOtherTenants = false\<close>; when that patch succeeds
  the delete call follows it, and when it fails the handler returns an error and no delete
  call is issued.  When the flag is not set, the delete call is the only call.
\<close>

theorem applicationResourceDelete_clears_flag_first:
  "(Get_bool d ''available_to_other_tenants''
      \<and> aac_Patch (Applications_ApplicationsClient meta) (rd_Id d)
            (empty_application_parameters\<lparr>AP_AvailableToOtherTenants := Some False\<rparr>) (backend w) = (Ok (), s1)
      \<and> aac_Delete (Applications_ApplicationsClient meta) (rd_Id d) s1 = (r, s2)
    \<longrightarrow> calls (snd (snd (applicationResourceDelete meta d w))) =
          calls w @ [AadApps (AadAppsPatch (rd_Id d) (empty_application_parameters\<lparr>AP_AvailableToOtherTenants := Some False\<rparr>)),
                     AadApps (AadAppsDelete (rd_Id d))])
 \<and> (Get_bool d ''available_to_other_tenants''
      \<and> aac_Patch (Applications_ApplicationsClient meta) (rd_Id d)
            (empty_application_parameters\<lparr>AP_AvailableToOtherTenants := Some False\<rparr>) (backend w) = (Failed status, s1)
    \<longrightarrow> applicationResourceDelete meta d w =
          (diags (ErrorDiagF ''Updating Application with object ID %q'' [rd_Id d]), d,
           \<lparr>calls = calls w @ [AadApps (AadAppsPatch (rd_Id d) (empty_application_parameters\<lparr>AP_AvailableToOtherTenants := Some False\<rparr>))],
            backend = s1\<rparr>))
 \<and> (\<not> Get_bool d ''available_to_other_tenants''
      \<and> aac_Delete (Applications_ApplicationsClient meta) (rd_Id d) (backend w) = (r, s2)
    \<longrightarrow> calls (snd (snd (applicationResourceDelete meta d w))) = calls w @ [AadApps (AadAppsDelete (rd_Id d))])"
  by (cases r) (simp_all add: applicationResourceDelete_def issue_def Let_def)

text \<open>The three cases at a stub backend: flag set and patch accepted, flag set and patch
  refused, flag not set.\<close>

theorem applicationResourceDelete_clears_flag_first_witness:
  "calls (snd (snd (applicationResourceDelete (c9_meta (Ok ())) (c9_data True) stub_world))) =
     [AadApps (AadAppsPatch ''a1'' (empty_application_parameters\<lparr>AP_AvailableToOtherTenants := Some False\<rparr>)),
      AadApps (AadAppsDelete ''a1'')]
 \<and> applicationResourceDelete (c9_meta (Failed 403)) (c9_data True) stub_world =
     (diags (ErrorDiagF ''Updating Application with object ID %q'' [''a1'']), c9_data True,
      \<lparr>calls = [AadApps (AadAppsPatch ''a1'' (empty_application_parameters\<lparr>AP_AvailableToOtherTenants := Some False\<rparr>))],
       backend = ()\<rparr>)
 \<and> calls (snd (snd (applicationResourceDelete (c9_meta (Ok ())) (c9_data False) stub_world))) =
     [AadApps (AadAppsDelete ''a1'')]"
  using applicationResourceDelete_clears_flag_first
          [where d = "c9_data True" and meta = "c9_meta (Ok ())" and w = stub_world and ?s1.0 = "()"
             and r = "Ok ()" and ?s2.0 = "()"]
        applicationResourceDelete_clears_flag_first
          [where d = "c9_data True" and meta = "c9_meta (Failed 403)" and w = stub_world and ?s1.0 = "()"
             and status = 403]
        applicationResourceDelete_clears_flag_first
          [where d = "c9_data False" and meta = "c9_meta (Ok ())" and w = stub_world
             and r = "Ok ()" and ?s2.0 = "()"]
  by (simp add: c9_meta_def c9_data_def stub_AadApplicationsClient_def stub_world_def stub_data_def
      Get_bool_def)

section \<open>String matching\<close>

text \<open>
  C8.  There are two strings, different but equal up to the case of ASCII letters, such that
  \<open>GroupCheckNameAvailability\<close>, asked for the one at a backend that lists a group named by
  the other, reports that group as a match; \<open>groupMemberResourceCreateAadGraph\<close>, asked to
  add the one to a group whose members hold the other, finds it among the existing members;
  and \<open>ApplicationFindByName\<close>, asked for the one at a backend that lists an application
  named by the other, finds nothing.  The first two compare with \<open>strings.EqualFold\<close>, the
  last with \<open>==\<close>.
\<close>

theorem case_sensitivity_differs:
  "\<exists>s t oid.
     s \<noteq> t \<and> map fold_byte s = map fold_byte t
   \<and> GroupCheckNameAvailability (c8_groups_client oid t) s None stub_world =
       (Ret (Some oid), \<lparr>calls = [MsGroups (GroupsList (displayName_filter s))], backend = ()\<rparr>)
   \<and> groupMemberResourceCreateAadGraph (\<lambda>d w. (Return None, d, w)) (c8_members_meta t) (c8_member_data s) stub_world =
       (diags (ImportAsExistsDiag ''azuread_group_member'' (GroupMemberId_String ''g1'' s)), c8_member_data s,
        \<lparr>calls = [AadGroups (GroupAllMembers ''g1'')], backend = ()\<rparr>)
   \<and> ApplicationFindByName (c8_applications_client oid t) s stub_world =
       (Ret None, \<lparr>calls = [MsApps (AppsList (displayName_filter s))], backend = ()\<rparr>)"
  apply (rule exI [of _ "''Team''"])
  apply (rule exI [of _ "''team''"])
  apply (rule exI [of _ "''7a0b''"])
  apply (simp add: GroupCheckNameAvailability_def groupMemberResourceCreateAadGraph_def
      ApplicationFindByName_def c8_groups_client_def c8_applications_client_def c8_members_meta_def
      c8_member_data_def stub_defs issue_def Get_string_def EqualFold_def fold_byte_def
      empty_group_def empty_application_def Let_def)
  done

lemma EqualFold_refl: "EqualFold s s"
  by (simp add: EqualFold_def)

lemma GroupCheckNameAvailability_loop_finds:
  "\<forall>g\<in>set gs. Group_ID g \<noteq> None \<and> Group_DisplayName g \<noteq> None
   \<Longrightarrow> \<exists>g\<in>set gs. Group_DisplayName g = Some name
   \<Longrightarrow> \<exists>i. GroupCheckNameAvailability_loop name None gs = Ret (Some i)"
proof (induction gs)
  case Nil
  then show ?case by simp
next
  case (Cons a gs)
  from Cons.prems(1) obtain y ya where a: "Group_ID a = Some y" "Group_DisplayName a = Some ya"
    by auto
  show ?case
  proof (cases "EqualFold name ya")
    case True
    with a show ?thesis by simp
  next
    case False
    then have "ya \<noteq> name" using EqualFold_refl by auto
    with Cons.prems(2) a have "\<exists>g\<in>set gs. Group_DisplayName g = Some name" by auto
    moreover from Cons.prems(1) have "\<forall>g\<in>set gs. Group_ID g \<noteq> None \<and> Group_DisplayName g \<noteq> None" by simp
    ultimately have "\<exists>i. GroupCheckNameAvailability_loop name None gs = Ret (Some i)"
      using Cons.IH by blast
    with False a show ?thesis by simp
  qed
qed

lemma ApplicationFindByName_loop_finds:
  "\<exists>a\<in>set apps. App_DisplayName a = Some name
   \<Longrightarrow> \<exists>a. ApplicationFindByName_loop name apps = Some a"
  by (induction apps) auto

text \<open>
  C7.  With \<open>prevent_duplicate_names\<close> set, Create is to return the duplicate diagnostic and
  issue no create call when an object with the same display name exists.  Both group
  handlers take the display name from the deprecated attribute \<open>name\<close> alone.  For a group
  configured through \<open>display_name = "team"\<close>, in a directory that holds a group named
  \<open>team\<close>, they look up the empty name, find nothing and issue the create call, with an empty
  display name; Create returns no diagnostics.
\<close>

theorem groupResourceCreate_ignores_display_name:
  "fst (groupResourceCreateMsGraph stub_framework (c7_directory_meta True) c7_display_name_data stub_world)
     = Return None
 \<and> calls (snd (snd (groupResourceCreateMsGraph stub_framework (c7_directory_meta True) c7_display_name_data stub_world))) =
     [MsGroups (GroupsList (displayName_filter [])),
      MsGroups (GroupsCreate (empty_group
        \<lparr>Group_DisplayName := Some [],
         Group_MailNickname := Some ''6b1c6b1c-0000-4000-8000-000000000001'',
         Group_SecurityEnabled := Some True,
         Group_MailEnabled := Some False\<rparr>)),
      WaitForCreationReplication (MsGroups (GroupsGet ''g2'')),
      MsGroups (GroupsGet ''g2''),
      MsGroups (GroupsListOwners ''g2''),
      MsGroups (GroupsListMembers ''g2'')]
 \<and> fst (groupResourceCreateAadGraph stub_framework (c7_directory_meta False) c7_display_name_data stub_world)
     = Return None
 \<and> calls (snd (snd (groupResourceCreateAadGraph stub_framework (c7_directory_meta False) c7_display_name_data stub_world))) =
     [AadGroups (GroupFindByName []),
      AadGroups (AadGroupsCreate
        \<lparr>GCP_DisplayName = Some [], GCP_MailEnabled = Some False,
         GCP_MailNickname = Some ''6b1c6b1c-0000-4000-8000-000000000001'',
         GCP_SecurityEnabled = Some True, GCP_AdditionalProperties = []\<rparr>),
      WaitForCreationReplication (AadGroups (AadGroupsGet ''g2'')),
      AadGroups (AadGroupsGet ''g2''),
      AadGroups (GroupAllMembers ''g2''),
      AadGroups (GroupAllOwners ''g2'')]"
  by (simp add: groupResourceCreateMsGraph_def groupResourceCreateMsGraph_properties_def
      groupResourceReadMsGraph_def GroupCheckNameAvailability_def displayName_filter_def
      groupResourceCreateAadGraph_def groupResourceCreateAadGraph_properties_def
      groupResourceCreateAadGraph_relations_def groupResourceReadAadGraph_def
      c7_directory_meta_def c7_directory_client_def c7_directory_aad_client_def c7_display_name_data_def
      stub_defs access_defs issue_def empty_group_def Let_def)

text \<open>
  Where the guard does hold.  For a display name configured through \<open>name\<close> (and, in
  \<open>applicationResourceCreateMsGraph\<close>, through \<open>display_name\<close>, which that handler reads
  before \<open>name\<close>), if the lookup shows an object with that name, Create returns the duplicate
  diagnostic (\<open>tf.ImportAsDuplicateDiag\<close>) and the lookup is the only call it issues.  Over
  MS Graph the list call answers with objects among which one has that display name; for
  groups every listed object carries an ID and a display name, as directory objects do
  (\<open>GroupCheckNameAvailability\<close> returns the ID of the match, so a match without an ID reads
  as no match, and it dereferences every display name).  Over AAD Graph the helper
  \<open>GroupFindByName\<close> or \<open>ApplicationFindByName\<close>, whose body is not among the sources, returns
  an object.
\<close>

lemma Create_duplicate_name_guard:
  "(Get_bool d ''prevent_duplicate_names''
      \<and> gc_List (Groups_MsClient gm) (displayName_filter (Get_string d ''name'')) (backend w)
          = (Ok (Some gs), s')
      \<and> (\<forall>g\<in>set gs. Group_ID g \<noteq> None \<and> Group_DisplayName g \<noteq> None)
      \<and> (\<exists>g\<in>set gs. Group_DisplayName g = Some (Get_string d ''name''))
    \<longrightarrow> (\<exists>existingId. groupResourceCreateMsGraph fw gm d w =
          (diags (ImportAsDuplicateDiag ''azuread_group'' existingId (Get_string d ''name'')), d,
           \<lparr>calls = calls w @ [MsGroups (GroupsList (displayName_filter (Get_string d ''name'')))],
            backend = s'\<rparr>)))
 \<and> (Get_bool d ''prevent_duplicate_names''
      \<and> agc_GroupFindByName (Groups_AadClient gm) (Get_string d ''name'') (backend w) = (Ret (Some existingGroup), s')
    \<longrightarrow> (\<exists>existingId. groupResourceCreateAadGraph fw gm d w =
          (diags (ImportAsDuplicateDiag ''azuread_group'' existingId (Get_string d ''name'')), d,
           \<lparr>calls = calls w @ [AadGroups (GroupFindByName (Get_string d ''name''))], backend = s'\<rparr>)))
 \<and> (Get_bool d ''prevent_duplicate_names''
      \<and> aac_ApplicationFindByName (Applications_ApplicationsClient am) (Get_string d ''name'') (backend w)
          = (Ret (Some existingApp), s')
    \<longrightarrow> (\<exists>existingId. applicationResourceCreate fw acd am d w =
          (diags (ImportAsDuplicateDiag ''azuread_application'' existingId (Get_string d ''name'')), d,
           \<lparr>calls = calls w @ [AadApps (AadApplicationFindByName (Get_string d ''name''))], backend = s'\<rparr>)))
 \<and> (Get_bool d ''prevent_duplicate_names''
      \<and> ac_List (Applications_MsClient mm)
           (displayName_filter (applicationResourceCreateMsGraph_displayName d)) (backend w)
          = (Ok (Some apps), s')
      \<and> (\<exists>a\<in>set apps. App_DisplayName a = Some (applicationResourceCreateMsGraph_displayName d))
    \<longrightarrow> (\<exists>existingId. applicationResourceCreateMsGraph fw mcd mm d w =
          (diags (ImportAsDuplicateDiag ''azuread_application'' existingId (applicationResourceCreateMsGraph_displayName d)), d,
           \<lparr>calls = calls w @ [MsApps (AppsList (displayName_filter (applicationResourceCreateMsGraph_displayName d)))],
            backend = s'\<rparr>)))"
proof (intro conjI impI)
  assume h: "Get_bool d ''prevent_duplicate_names''
      \<and> gc_List (Groups_MsClient gm) (displayName_filter (Get_string d ''name'')) (backend w)
          = (Ok (Some gs), s')
      \<and> (\<forall>g\<in>set gs. Group_ID g \<noteq> None \<and> Group_DisplayName g \<noteq> None)
      \<and> (\<exists>g\<in>set gs. Group_DisplayName g = Some (Get_string d ''name''))"
  then obtain i where "GroupCheckNameAvailability_loop (Get_string d ''name'') None gs = Ret (Some i)"
    using GroupCheckNameAvailability_loop_finds [of gs "Get_string d ''name''"] by blast
  with h show "\<exists>existingId. groupResourceCreateMsGraph fw gm d w =
          (diags (ImportAsDuplicateDiag ''azuread_group'' existingId (Get_string d ''name'')), d,
           \<lparr>calls = calls w @ [MsGroups (GroupsList (displayName_filter (Get_string d ''name'')))],
            backend = s'\<rparr>)"
    by (simp add: groupResourceCreateMsGraph_def GroupCheckNameAvailability_def issue_def Let_def)
next
  assume "Get_bool d ''prevent_duplicate_names''
      \<and> agc_GroupFindByName (Groups_AadClient gm) (Get_string d ''name'') (backend w) = (Ret (Some existingGroup), s')"
  then show "\<exists>existingId. groupResourceCreateAadGraph fw gm d w =
          (diags (ImportAsDuplicateDiag ''azuread_group'' existingId (Get_string d ''name'')), d,
           \<lparr>calls = calls w @ [AadGroups (GroupFindByName (Get_string d ''name''))], backend = s'\<rparr>)"
    by (cases "ADGroup_ObjectID existingGroup")
       (simp_all add: groupResourceCreateAadGraph_def issue_def Let_def)
next
  assume "Get_bool d ''prevent_duplicate_names''
      \<and> aac_ApplicationFindByName (Applications_ApplicationsClient am) (Get_string d ''name'') (backend w)
          = (Ret (Some existingApp), s')"
  then show "\<exists>existingId. applicationResourceCreate fw acd am d w =
          (diags (ImportAsDuplicateDiag ''azuread_application'' existingId (Get_string d ''name'')), d,
           \<lparr>calls = calls w @ [AadApps (AadApplicationFindByName (Get_string d ''name''))], backend = s'\<rparr>)"
    by (cases "AadApp_ObjectID existingApp")
       (simp_all add: applicationResourceCreate_def applicationResourceCreate_checks_def issue_def Let_def)
next
  assume h: "Get_bool d ''prevent_duplicate_names''
      \<and> ac_List (Applications_MsClient mm)
           (displayName_filter (applicationResourceCreateMsGraph_displayName d)) (backend w)
          = (Ok (Some apps), s')
      \<and> (\<exists>a\<in>set apps. App_DisplayName a = Some (applicationResourceCreateMsGraph_displayName d))"
  then obtain a where a: "ApplicationFindByName_loop (applicationResourceCreateMsGraph_displayName d) apps = Some a"
    using ApplicationFindByName_loop_finds [of apps "applicationResourceCreateMsGraph_displayName d"] by blast
  with h show "\<exists>existingId. applicationResourceCreateMsGraph fw mcd mm d w =
          (diags (ImportAsDuplicateDiag ''azuread_application'' existingId (applicationResourceCreateMsGraph_displayName d)), d,
           \<lparr>calls = calls w @ [MsApps (AppsList (displayName_filter (applicationResourceCreateMsGraph_displayName d)))],
            backend = s'\<rparr>)"
    by (cases "App_ID a")
       (simp_all add: applicationResourceCreateMsGraph_def applicationResourceCreateMsGraph_checks_def
          ApplicationFindByName_def issue_def Let_def)
qed

text \<open>The same directory and a group configured through \<open>name = "team"\<close>: both group handlers
  return the duplicate diagnostic.  So does \<open>applicationResourceCreateMsGraph\<close> for an
  application configured through \<open>display_name = "team"\<close>.\<close>

lemma groupResourceCreate_name_is_guarded:
  "groupResourceCreateMsGraph stub_framework (c7_directory_meta True) c7_data stub_world =
     (diags (ImportAsDuplicateDiag ''azuread_group'' ''g0'' ''team''), c7_data,
      \<lparr>calls = [MsGroups (GroupsList (displayName_filter ''team''))], backend = ()\<rparr>)
 \<and> groupResourceCreateAadGraph stub_framework (c7_directory_meta False) c7_data stub_world =
     (diags (ImportAsDuplicateDiag ''azuread_group'' ''g0'' ''team''), c7_data,
      \<lparr>calls = [AadGroups (GroupFindByName ''team'')], backend = ()\<rparr>)
 \<and> applicationResourceCreateMsGraph stub_framework stub_ms_codec c7_applications_ms_meta c7_display_name_data stub_world =
     (diags (ImportAsDuplicateDiag ''azuread_application'' ''a0'' ''team''), c7_display_name_data,
      \<lparr>calls = [MsApps (AppsList (displayName_filter ''team''))], backend = ()\<rparr>)"
  by (simp add: groupResourceCreateMsGraph_def GroupCheckNameAvailability_def displayName_filter_def
      groupResourceCreateAadGraph_def EqualFold_def fold_byte_def
      applicationResourceCreateMsGraph_def applicationResourceCreateMsGraph_checks_def
      applicationResourceCreateMsGraph_displayName_def ApplicationFindByName_def
      c7_directory_meta_def c7_directory_client_def c7_directory_aad_client_def c7_data_def
      c7_display_name_data_def c7_applications_ms_meta_def
      stub_defs access_defs issue_def empty_group_def empty_application_def Let_def)

section \<open>Update payloads\<close>












end
